theory Spec2Isabelle
  imports Main "HOL-Library.Sublist" "HOL-Library.AList"
begin

section \<open>The service catalog and the indicator table\<close>

text \<open>
  \<^verbatim>\<open>workflow.py\<close> keeps the catalog as a list of dicts with the keys
  \<^verbatim>\<open>sku\<close>, \<^verbatim>\<open>name\<close>, \<^verbatim>\<open>price\<close> and \<^verbatim>\<open>description\<close>; a catalog entry is a
  record here. Prices are Python ints.
\<close>

record service =
  sku :: string
  name :: string
  price :: int
  description :: string

definition SERVICES :: "service list" where
  "SERVICES =
    [\<lparr>sku = ''CGO-MKTOPS'', name = ''Marketing Operations Consulting'', price = 3000,
      description = ''Lead scoring, segmentation, campaign orchestration, ABM strategy''\<rparr>,
     \<lparr>sku = ''CGO-SALESOPS'', name = ''Sales Operations Consulting'', price = 3000,
      description = ''Sales enablement, pipeline optimization, lead scoring''\<rparr>,
     \<lparr>sku = ''CGO-CRM'', name = ''CRM Management'', price = 2000,
      description = ''Weekly hotfixes, data quality monitoring, ad-hoc reporting''\<rparr>,
     \<lparr>sku = ''CGO-DATA'', name = ''Ongoing Data Enrichment'', price = 1500,
      description = ''1 custom signal + ICP monthly enrichment''\<rparr>,
     \<lparr>sku = ''CGO-EMAIL'', name = ''Email Outreach Automation'', price = 1500,
      description = ''Cold email infrastructure and campaign execution''\<rparr>,
     \<lparr>sku = ''CGO-LINKEDIN'', name = ''LinkedIn Outreach Automation'', price = 1500,
      description = ''LinkedIn prospecting automation''\<rparr>,
     \<lparr>sku = ''CGO-BUNDLE'', name = ''CGO Bundle (Full)'', price = 12000,
      description = ''All services included''\<rparr>]"

text \<open>
  \<^verbatim>\<open>PAIN_POINT_MAP\<close> is a dict literal; Python dicts iterate in insertion order, so
  \<^verbatim>\<open>.items()\<close> is this association list.
\<close>

definition PAIN_POINT_MAP :: "(string \<times> string list) list" where
  "PAIN_POINT_MAP =
    [(''CGO-CRM'',
      [''hubspot underutilized'', ''crm'', ''data silo'', ''logging'', ''data quality'',
       ''duplicates'', ''messy data'', ''hubspot help'', ''custom properties'', ''reporting'',
       ''dashboards'']),
     (''CGO-MKTOPS'',
      [''marketing automation'', ''lead scoring'', ''campaigns'', ''abm'',
       ''marketing attribution'', ''visitor identification'', ''website traffic'',
       ''de-anonymize'', ''lead qualification'', ''mql'', ''nurture'']),
     (''CGO-SALESOPS'',
      [''sales enablement'', ''pipeline'', ''sequences'', ''sales process'', ''forecasting'',
       ''sales team'', ''quota'', ''opportunity'', ''deal velocity'', ''win rate'',
       ''sales handoff'']),
     (''CGO-DATA'',
      [''data enrichment'', ''target market data'', ''contacts'', ''validation'', ''lead lists'',
       ''icp data'', ''firmographic'', ''technographic'', ''buying signals'', ''intent data'',
       ''clay'']),
     (''CGO-EMAIL'',
      [''email campaign'', ''cold email'', ''deliverability'', ''outreach'', ''email sequences'',
       ''prospecting email'', ''spam'', ''email warmup'', ''open rates'', ''reply rates'']),
     (''CGO-LINKEDIN'',
      [''linkedin campaign'', ''linkedin outreach'', ''social selling'', ''linkedin prospecting'',
       ''connection requests'', ''inmail'', ''linkedin automation'', ''social''])]"

section \<open>Strings\<close>

text \<open>
  Transcripts are modelled as ASCII text: \<^verbatim>\<open>str.lower()\<close> maps the letters
  \<^verbatim>\<open>A\<close>..\<^verbatim>\<open>Z\<close> to \<^verbatim>\<open>a\<close>..\<^verbatim>\<open>z\<close> and leaves every other
  character alone. Python's case mapping of non-ASCII code points is outside this model.
\<close>

definition lower_char :: "char \<Rightarrow> char" where
  "lower_char c =
     (case map_of (zip ''ABCDEFGHIJKLMNOPQRSTUVWXYZ'' ''abcdefghijklmnopqrstuvwxyz'') c of
        Some l \<Rightarrow> l
      | None \<Rightarrow> c)"

definition lower :: "string \<Rightarrow> string" where
  "lower text = map lower_char text"

text \<open>
  \<^verbatim>\<open>ind in text\<close> on Python strings is the contiguous-substring test.
\<close>

fun py_in :: "string \<Rightarrow> string \<Rightarrow> bool" where
  "py_in ind [] = (ind = [])"
| "py_in ind (c # cs) = (prefix ind (c # cs) \<or> py_in ind cs)"

section \<open>Recommendation engine\<close>

text \<open>
  The inner loop of \<^verbatim>\<open>_recommend_from_transcript\<close>:
  \<^verbatim>\<open>score = 0;  for ind in indicators:  if ind in text_lower: score += 2\<close>
\<close>

definition indicator_score :: "string \<Rightarrow> string list \<Rightarrow> int" where
  "indicator_score text_lower indicators =
     fold (\<lambda>ind score. if py_in ind text_lower then score + 2 else score) indicators 0"

text \<open>
  The outer loop over \<^verbatim>\<open>PAIN_POINT_MAP.items()\<close>; \<^verbatim>\<open>scores\<close> is the dict being
  filled, kept as an association list (\<^verbatim>\<open>scores[sku] = score\<close> is an update).
\<close>

fun score_items :: "string \<Rightarrow> (string \<times> string list) list \<Rightarrow> (string \<times> int) list
    \<Rightarrow> (string \<times> int) list" where
  "score_items text_lower [] scores = scores"
| "score_items text_lower ((sku', indicators) # items) scores =
     (if sku' = ''CGO-BUNDLE'' then score_items text_lower items scores
      else let score = indicator_score text_lower indicators
           in if score \<ge> 2 then score_items text_lower items (AList.update sku' score scores)
              else score_items text_lower items scores)"

text \<open>\<^verbatim>\<open>_recommend_from_transcript\<close> (an identifier cannot start with an underscore).\<close>

definition recommend_from_transcript :: "string \<Rightarrow> string set" where
  "recommend_from_transcript text =
     (let text_lower = lower text;
          scores = score_items text_lower PAIN_POINT_MAP []
      in set (map fst scores))"

text \<open>
  The first loop of \<^verbatim>\<open>recommend_services\<close>:
  \<^verbatim>\<open>all_skus = set();  for t in transcripts:  all_skus |= _recommend_from_transcript(t)\<close>
\<close>

definition all_skus :: "string list \<Rightarrow> string set" where
  "all_skus transcripts = fold (\<lambda>t acc. acc \<union> recommend_from_transcript t) transcripts {}"

definition recommend_services :: "string list \<Rightarrow> service list \<times> int" where
  "recommend_services transcripts =
     (let skus = all_skus transcripts in
      if card skus \<ge> 4 then (filter (\<lambda>s. sku s = ''CGO-BUNDLE'') SERVICES, 12000)
      else let recommended = filter (\<lambda>s. sku s \<in> skus) SERVICES;
               total = sum_list (map price recommended)
           in (recommended, total))"

text \<open>
  The number of indicator phrases of a sku that occur in a (lower-cased) transcript: the
  hit count the specification speaks of. The source never computes it; it computes
  \<open>indicator_score\<close>.
\<close>

definition hit_count :: "string \<Rightarrow> string list \<Rightarrow> nat" where
  "hit_count text_lower indicators = length (filter (\<lambda>ind. py_in ind text_lower) indicators)"

definition bundle_entry :: service where
  "bundle_entry =
     \<lparr>sku = ''CGO-BUNDLE'', name = ''CGO Bundle (Full)'', price = 12000,
      description = ''All services included''\<rparr>"

text \<open>
  A sku's total indicator hit count for one transcript, in the specification's sense:
  how many of the sku's indicator phrases occur in the lower-cased transcript.
\<close>

definition sku_hits :: "string \<Rightarrow> string \<Rightarrow> nat" where
  "sku_hits text sku' =
     (case map_of PAIN_POINT_MAP sku' of
        None \<Rightarrow> 0
      | Some indicators \<Rightarrow> hit_count (lower text) indicators)"

section \<open>Deal reference parser\<close>

text \<open>
  \<^verbatim>\<open>re.search(r"contacts/(\d+)/record/0-3/(\d+)", url)\<close>: the leftmost position at
  which the pattern matches. Both digit groups are greedy, and neither can give a digit
  back (the first is followed by \<^verbatim>\<open>/\<close>, the second by nothing), so each group is the
  longest run of digits at its place. Digits are the ASCII digits.
\<close>

definition is_digit :: "char \<Rightarrow> bool" where
  "is_digit c = (c \<in> set ''0123456789'')"

definition match_here :: "string \<Rightarrow> (string \<times> string) option" where
  "match_here s =
     (if \<not> prefix ''contacts/'' s then None
      else let r1 = drop (length ''contacts/'') s;
               portal = takeWhile is_digit r1;
               r2 = dropWhile is_digit r1
           in if portal = [] \<or> \<not> prefix ''/record/0-3/'' r2 then None
              else let r3 = drop (length ''/record/0-3/'') r2;
                       deal = takeWhile is_digit r3
                   in if deal = [] then None else Some (portal, deal))"

fun parse_deal_url :: "string \<Rightarrow> (string \<times> string) option" where
  "parse_deal_url [] = None"
| "parse_deal_url (c # cs) =
     (case match_here (c # cs) of
        Some m \<Rightarrow> Some m
      | None \<Rightarrow> parse_deal_url cs)"

section \<open>Exceptions, upstream services and the call trace\<close>

text \<open>
  The exceptions a run can meet. \<open>HTTPError\<close> is \<^verbatim>\<open>requests.HTTPError\<close>, raised by
  \<^verbatim>\<open>raise_for_status()\<close> on an error status, with its message. \<open>Timeout\<close> and
  \<open>ConnectionError\<close> are the \<^verbatim>\<open>requests\<close> exceptions of a call that gets no response
  (every call passes \<^verbatim>\<open>timeout=\<close>); they are not subclasses of \<^verbatim>\<open>HTTPError\<close>.
  \<open>KeyError\<close> is Python's, raised by a subscript on a response that lacks the key.
\<close>

datatype exn = HTTPError string | Timeout | ConnectionError | KeyError string

text \<open>
  Response shapes, as far as the code reads them. A key that a response may lack is an
  \<open>option\<close>.
\<close>

record deal =
  dealname :: "string option"
  company_results :: "string option list"
  contact_results :: "string option list"

record crm_object =
  properties :: "(string \<times> string) list option"

record product =
  hs_sku :: "string option"
  product_id :: "string option"

text \<open>
  Request bodies. The constant properties of the quote (status, language, locale,
  currency, terms, association type) are left out.
\<close>

record quote_data =
  hs_title :: string
  hs_expiration_date :: string
  hs_comments :: string
  cgo_90_day_preview :: string
  deal_association :: string

record line_item_data =
  hs_product_id :: string
  quantity :: int
  li_price :: int
  li_name :: string
  li_description :: string

text \<open>
  A narrative request: what the prompt is built from (company name, the joined and
  truncated transcript text, and for the executive summary the services and the total).
  The wording of the prompts is not modelled.
\<close>

datatype claude_request =
    ExecutiveSummaryPrompt string int string "service list"
  | NinetyDayPreviewPrompt string string

text \<open>One constructor per network call of \<^verbatim>\<open>workflow.py\<close>.\<close>

datatype call =
    GetDeal string
  | GetCompany string
  | GetContact string
  | GetMeetingAssociations string
  | GetMeeting string
  | GetProducts
  | PostQuote quote_data
  | PostLineItem line_item_data
  | PutAssociation string string
  | CallClaude claude_request

text \<open>
  The upstream services: what each request returns or raises. Within one run a request
  is answered the same way each time it is made. \<open>expiration_date\<close> is the clock:
  \<^verbatim>\<open>(datetime.utcnow() + timedelta(days=30)).strftime("%Y-%m-%d")\<close>.
\<close>

record world =
  get_deal :: "string \<Rightarrow> exn + deal"
  get_company :: "string \<Rightarrow> exn + crm_object"
  get_contact :: "string \<Rightarrow> exn + crm_object"
  get_meeting_associations :: "string \<Rightarrow> exn + string option list"
  get_meeting :: "string \<Rightarrow> exn + crm_object"
  get_products :: "exn + product list"
  post_quote :: "quote_data \<Rightarrow> exn + string option"
  post_line_item :: "line_item_data \<Rightarrow> exn + string option"
  put_association :: "string \<Rightarrow> string \<Rightarrow> exn + unit"
  call_claude :: "claude_request \<Rightarrow> exn + string"
  expiration_date :: string

text \<open>
  A computation that makes network calls: its outcome (\<open>Inl\<close> an exception that
  propagates, \<open>Inr\<close> a value) and the calls it made, in order.
\<close>

type_synonym 'a io = "(exn + 'a) \<times> call list"

definition returns :: "'a \<Rightarrow> 'a io" where
  "returns x = (Inr x, [])"

definition raises :: "exn \<Rightarrow> 'a io" where
  "raises e = (Inl e, [])"

definition perform :: "call \<Rightarrow> exn + 'a \<Rightarrow> 'a io" where
  "perform c outcome = (outcome, [c])"

text \<open>Sequencing: an exception of the first part ends the computation.\<close>

definition and_then :: "'a io \<Rightarrow> ('a \<Rightarrow> 'b io) \<Rightarrow> 'b io" where
  "and_then m k =
     (case m of
        (Inl e, tr) \<Rightarrow> (Inl e, tr)
      | (Inr x, tr) \<Rightarrow> (case k x of (r, tr') \<Rightarrow> (r, tr @ tr')))"

text \<open>
  \<^verbatim>\<open>try: x = m except requests.HTTPError as e: return on_http(e)\<close> followed by the rest
  of the function, \<open>k x\<close>. Any other exception propagates.
\<close>

definition try_or_return :: "'a io \<Rightarrow> (string \<Rightarrow> 'b) \<Rightarrow> ('a \<Rightarrow> 'b io) \<Rightarrow> 'b io" where
  "try_or_return m on_http k =
     (case m of
        (Inl (HTTPError msg), tr) \<Rightarrow> (Inr (on_http msg), tr)
      | (Inl e, tr) \<Rightarrow> (Inl e, tr)
      | (Inr x, tr) \<Rightarrow> (case k x of (r, tr') \<Rightarrow> (r, tr @ tr')))"

text \<open>
  \<^verbatim>\<open>try: m  except requests.HTTPError: handler\<close>, as a computation of its own: the
  handler runs on an \<open>HTTPError\<close> only.
\<close>

definition try_except :: "'a io \<Rightarrow> (string \<Rightarrow> 'a io) \<Rightarrow> 'a io" where
  "try_except m handler =
     (case m of
        (Inl (HTTPError msg), tr) \<Rightarrow> (case handler msg of (r, tr') \<Rightarrow> (r, tr @ tr'))
      | (Inl e, tr) \<Rightarrow> (Inl e, tr)
      | (Inr x, tr) \<Rightarrow> (Inr x, tr))"

text \<open>Python truthiness of a string that may be \<^verbatim>\<open>None\<close>.\<close>

definition falsy :: "string option \<Rightarrow> bool" where
  "falsy v = (v = None \<or> v = Some [])"

section \<open>CRM context fetcher\<close>

definition fetch_deal :: "world \<Rightarrow> string \<Rightarrow> deal io" where
  "fetch_deal w deal_id = perform (GetDeal deal_id) (get_deal w deal_id)"

text \<open>
  \<^verbatim>\<open>fetch_companies\<close>: the loop, with the list built so far.
  \<^verbatim>\<open>try: data = _hubspot_get(..); companies.append(data)  except requests.HTTPError: pass\<close>
\<close>

fun fetch_companies_loop :: "world \<Rightarrow> string list \<Rightarrow> crm_object list \<Rightarrow> crm_object list io" where
  "fetch_companies_loop w [] companies = returns companies"
| "fetch_companies_loop w (cid # cids) companies =
     and_then
       (try_except
          (and_then (perform (GetCompany cid) (get_company w cid))
             (\<lambda>data. returns (companies @ [data])))
          (\<lambda>msg. returns companies))
       (\<lambda>companies'. fetch_companies_loop w cids companies')"

definition fetch_companies :: "world \<Rightarrow> string list \<Rightarrow> crm_object list io" where
  "fetch_companies w company_ids = fetch_companies_loop w company_ids []"

fun fetch_contacts_loop :: "world \<Rightarrow> string list \<Rightarrow> crm_object list \<Rightarrow> crm_object list io" where
  "fetch_contacts_loop w [] contacts = returns contacts"
| "fetch_contacts_loop w (cid # cids) contacts =
     and_then
       (try_except
          (and_then (perform (GetContact cid) (get_contact w cid))
             (\<lambda>data. returns (contacts @ [data])))
          (\<lambda>msg. returns contacts))
       (\<lambda>contacts'. fetch_contacts_loop w cids contacts')"

definition fetch_contacts :: "world \<Rightarrow> string list \<Rightarrow> crm_object list io" where
  "fetch_contacts w contact_ids = fetch_contacts_loop w contact_ids []"

text \<open>
  \<^verbatim>\<open>(meeting.get("properties") or {}).get("hs_internal_meeting_notes") or ""\<close>
\<close>

definition meeting_notes :: "crm_object \<Rightarrow> string" where
  "meeting_notes meeting =
     (case properties meeting of
        None \<Rightarrow> []
      | Some props \<Rightarrow>
          (case map_of props ''hs_internal_meeting_notes'' of None \<Rightarrow> [] | Some notes \<Rightarrow> notes))"

definition is_fathom_summary :: "string \<Rightarrow> bool" where
  "is_fathom_summary notes =
     (py_in ''AI Meeting Summary'' notes \<or> py_in ''Generated by Fathom'' notes)"

text \<open>
  The loop of \<^verbatim>\<open>fetch_fathom_transcripts\<close> over the association results; each result
  is its \<^verbatim>\<open>toObjectId\<close>, if it has one.
\<close>

fun fetch_transcripts_loop :: "world \<Rightarrow> string option list \<Rightarrow> string list \<Rightarrow> string list io" where
  "fetch_transcripts_loop w [] transcripts = returns transcripts"
| "fetch_transcripts_loop w (r # results) transcripts =
     (case r of
        None \<Rightarrow> fetch_transcripts_loop w results transcripts
      | Some meeting_id \<Rightarrow>
          if meeting_id = [] then fetch_transcripts_loop w results transcripts
          else
            and_then
              (try_except
                 (and_then (perform (GetMeeting meeting_id) (get_meeting w meeting_id))
                    (\<lambda>meeting. let notes = meeting_notes meeting
                       in returns (if is_fathom_summary notes then transcripts @ [notes]
                                   else transcripts)))
                 (\<lambda>msg. returns transcripts))
              (\<lambda>transcripts'. fetch_transcripts_loop w results transcripts'))"

definition fetch_fathom_transcripts :: "world \<Rightarrow> string \<Rightarrow> string list io" where
  "fetch_fathom_transcripts w deal_id =
     try_or_return
       (perform (GetMeetingAssociations deal_id) (get_meeting_associations w deal_id))
       (\<lambda>msg. [])
       (\<lambda>results. fetch_transcripts_loop w results [])"

text \<open>
  \<^verbatim>\<open>fetch_products\<close>: the dict \<^verbatim>\<open>sku_to_id\<close> as an association list;
  \<^verbatim>\<open>p["id"]\<close> is read only for a product with a truthy sku.
\<close>

fun products_loop :: "product list \<Rightarrow> (string \<times> string) list \<Rightarrow> (string \<times> string) list io" where
  "products_loop [] sku_to_id = returns sku_to_id"
| "products_loop (p # ps) sku_to_id =
     (case hs_sku p of
        None \<Rightarrow> products_loop ps sku_to_id
      | Some sku' \<Rightarrow>
          if sku' = [] then products_loop ps sku_to_id
          else (case product_id p of
                  None \<Rightarrow> raises (KeyError ''id'')
                | Some i \<Rightarrow> products_loop ps (AList.update sku' i sku_to_id)))"

definition fetch_products :: "world \<Rightarrow> (string \<times> string) list io" where
  "fetch_products w =
     and_then (perform GetProducts (get_products w)) (\<lambda>results. products_loop results [])"

section \<open>Narrative generator\<close>

text \<open>\<^verbatim>\<open>sep.join(xs)\<close>\<close>

fun join :: "string \<Rightarrow> string list \<Rightarrow> string" where
  "join sep [] = []"
| "join sep [x] = x"
| "join sep (x # y # ys) = x @ sep @ join sep (y # ys)"

definition transcript_separator :: string where
  "transcript_separator = [CHR 0x0A, CHR 0x0A] @ ''---'' @ [CHR 0x0A, CHR 0x0A]"

definition generate_90_day_preview :: "world \<Rightarrow> string list \<Rightarrow> string \<Rightarrow> string io" where
  "generate_90_day_preview w transcripts company_name' =
     (let transcript_text =
            (if transcripts \<noteq> [] then join transcript_separator transcripts
             else ''No discovery call transcripts available. Generate a general but professional 90-day preview.'');
          request = NinetyDayPreviewPrompt company_name' (take 15000 transcript_text)
      in perform (CallClaude request) (call_claude w request))"

definition generate_executive_summary ::
    "world \<Rightarrow> string list \<Rightarrow> string \<Rightarrow> service list \<Rightarrow> int \<Rightarrow> string io" where
  "generate_executive_summary w transcripts company_name' services' total_monthly =
     (let transcript_text =
            (if transcripts \<noteq> [] then join transcript_separator transcripts
             else ''No discovery call data.'');
          request = ExecutiveSummaryPrompt company_name' total_monthly (take 12000 transcript_text) services'
      in perform (CallClaude request) (call_claude w request))"

section \<open>Quote assembler\<close>

text \<open>The \<^verbatim>\<open>li_data\<close> dict of a service with a resolved product id.\<close>

definition line_item_of :: "string \<Rightarrow> service \<Rightarrow> line_item_data" where
  "line_item_of prod_id svc =
     \<lparr>hs_product_id = prod_id, quantity = 1, li_price = price svc,
      li_name = name svc, li_description = description svc\<rparr>"

text \<open>
  The loop of \<^verbatim>\<open>create_quote_and_line_items\<close> over the selected services. A service
  whose sku has no (truthy) product id is skipped; for the others the line item is
  created and then associated to the quote. No call is wrapped in \<^verbatim>\<open>try\<close>.
\<close>

fun line_items_loop ::
    "world \<Rightarrow> (string \<times> string) list \<Rightarrow> string \<Rightarrow> service list \<Rightarrow> unit io" where
  "line_items_loop w sku_to_id quote_id [] = returns ()"
| "line_items_loop w sku_to_id quote_id (svc # svcs) =
     (case map_of sku_to_id (sku svc) of
        None \<Rightarrow> line_items_loop w sku_to_id quote_id svcs
      | Some prod_id \<Rightarrow>
          if prod_id = [] then line_items_loop w sku_to_id quote_id svcs
          else
            let li_data = line_item_of prod_id svc
            in and_then (perform (PostLineItem li_data) (post_line_item w li_data))
                 (\<lambda>line_item.
                    case line_item of
                      None \<Rightarrow> raises (KeyError ''id'')
                    | Some line_item_id \<Rightarrow>
                        and_then
                          (perform (PutAssociation quote_id line_item_id)
                             (put_association w quote_id line_item_id))
                          (\<lambda>u. line_items_loop w sku_to_id quote_id svcs)))"

definition quote_url_of :: "string \<Rightarrow> string \<Rightarrow> string" where
  "quote_url_of portal_id quote_id =
     ''https://app.hubspot.com/contacts/'' @ portal_id @ ''/record/0-115/'' @ quote_id"

definition create_quote_and_line_items ::
    "world \<Rightarrow> string \<Rightarrow> string \<Rightarrow> string \<Rightarrow> service list \<Rightarrow> string \<Rightarrow> string \<Rightarrow> string io" where
  "create_quote_and_line_items w portal_id deal_id company_name' services'
       executive_summary_html ninety_day_preview_html =
     and_then (fetch_products w)
       (\<lambda>sku_to_id.
          let quote_data' =
                \<lparr>hs_title = ''CGO in a Box Proposal - '' @ company_name',
                 hs_expiration_date = expiration_date w,
                 hs_comments = executive_summary_html,
                 cgo_90_day_preview = ninety_day_preview_html,
                 deal_association = deal_id\<rparr>
          in and_then (perform (PostQuote quote_data') (post_quote w quote_data'))
               (\<lambda>quote.
                  case quote of
                    None \<Rightarrow> raises (KeyError ''id'')
                  | Some quote_id \<Rightarrow>
                      and_then (line_items_loop w sku_to_id quote_id services')
                        (\<lambda>u. returns (quote_url_of portal_id quote_id))))"

section \<open>Workflow orchestrator\<close>

record config =
  HUBSPOT_API_KEY :: "string option"
  HUBSPOT_PORTAL_ID :: "string option"
  ANTHROPIC_API_KEY :: "string option"

text \<open>
  The result dict of \<^verbatim>\<open>run_workflow\<close>. A failure carries one constructor per
  \<^verbatim>\<open>return {"success": False, "error": ...}\<close> of the source, in source order, with what
  the message is formatted from.
\<close>

datatype failure =
    MissingHubspotConfig
  | MissingAnthropicKey
  | InvalidDealUrl
  | PortalMismatch string string
  | HubspotApiError string
  | NoFathomSummaries
  | ClaudeApiError string
  | QuoteCreationError string

datatype workflow_result =
    Succeeded string string int "string list"
  | Failed failure

definition success :: "workflow_result \<Rightarrow> bool" where
  "success r = (case r of Succeeded q c t s \<Rightarrow> True | Failed f \<Rightarrow> False)"

text \<open>
  The error taxonomy of the specification, for each failure the source returns: absent
  credentials are a configuration error, an unparsable reference or a tenant mismatch a
  validation error, no transcripts a failed precondition, and a failed CRM or narrative
  call of a fatal phase an upstream error.
\<close>

datatype error_class = ConfigurationError | ValidationError | PreconditionFailed | UpstreamError

fun classification :: "failure \<Rightarrow> error_class" where
  "classification MissingHubspotConfig = ConfigurationError"
| "classification MissingAnthropicKey = ConfigurationError"
| "classification InvalidDealUrl = ValidationError"
| "classification (PortalMismatch url_portal portal_id) = ValidationError"
| "classification (HubspotApiError msg) = UpstreamError"
| "classification NoFathomSummaries = PreconditionFailed"
| "classification (ClaudeApiError msg) = UpstreamError"
| "classification (QuoteCreationError msg) = UpstreamError"

text \<open>\<^verbatim>\<open>[r["id"] for r in results]\<close>: a result without \<^verbatim>\<open>id\<close> raises.\<close>

definition ids_of :: "string option list \<Rightarrow> string list io" where
  "ids_of results =
     (case those results of None \<Rightarrow> raises (KeyError ''id'') | Some ids \<Rightarrow> returns ids)"

text \<open>\<^verbatim>\<open>companies[0]["properties"]["name"]\<close>\<close>

definition company_display_name :: "crm_object \<Rightarrow> string io" where
  "company_display_name company =
     (case properties company of
        None \<Rightarrow> raises (KeyError ''properties'')
      | Some props \<Rightarrow>
          (case map_of props ''name'' of
             None \<Rightarrow> raises (KeyError ''name'')
           | Some n \<Rightarrow> returns n))"

text \<open>
  Lines 330 to 332 of \<^verbatim>\<open>run_workflow\<close>:
  \<^verbatim>\<open>services, total = recommend_services(transcripts)\<close>,
  \<^verbatim>\<open>if not services: services, total = [SERVICES[0]], 3000\<close>
\<close>

definition select_services :: "string list \<Rightarrow> service list \<times> int" where
  "select_services transcripts =
     (case recommend_services transcripts of
        (services', total_monthly) \<Rightarrow>
          if services' = [] then ([SERVICES ! 0], 3000) else (services', total_monthly))"

text \<open>
  Lines 330 to 354 of \<^verbatim>\<open>run_workflow\<close>: what the run does once it holds a non-empty
  list of transcripts (recommendation, narrative, quote, result).
\<close>

definition propose :: "world \<Rightarrow> string \<Rightarrow> string \<Rightarrow> string \<Rightarrow> string list \<Rightarrow> workflow_result io" where
  "propose w portal_id deal_id company_name' transcripts =
     (case select_services transcripts of
        (services', total_monthly) \<Rightarrow>
          try_or_return
            (and_then (generate_executive_summary w transcripts company_name' services' total_monthly)
               (\<lambda>exec_summary.
                  and_then (generate_90_day_preview w transcripts company_name')
                    (\<lambda>preview. returns (exec_summary, preview))))
            (\<lambda>msg. Failed (ClaudeApiError msg))
            (\<lambda>(exec_summary, preview).
               try_or_return
                 (create_quote_and_line_items w portal_id deal_id company_name' services'
                    exec_summary preview)
                 (\<lambda>msg. Failed (QuoteCreationError msg))
                 (\<lambda>quote_url.
                    returns (Succeeded quote_url company_name' total_monthly (map name services')))))"

text \<open>
  Lines 308 to 328 of \<^verbatim>\<open>run_workflow\<close>: the CRM reads of a run whose preconditions
  hold, up to the transcripts check; continued by \<open>propose\<close>.
\<close>

definition run_phases :: "world \<Rightarrow> string \<Rightarrow> string \<Rightarrow> workflow_result io" where
  "run_phases w portal_id deal_id =
     try_or_return (fetch_deal w deal_id)
       (\<lambda>msg. Failed (HubspotApiError msg))
       (\<lambda>deal_resp.
          let deal_name =
                (case dealname deal_resp of
                   None \<Rightarrow> ''Unknown Deal''
                 | Some n \<Rightarrow> n)
          in
          and_then (ids_of (company_results deal_resp)) (\<lambda>company_ids.
          and_then (ids_of (contact_results deal_resp)) (\<lambda>contact_ids.
          and_then (fetch_companies w company_ids) (\<lambda>companies.
          and_then (fetch_contacts w contact_ids) (\<lambda>contacts.
          and_then
            (case companies of
               [] \<Rightarrow> returns deal_name
             | company # cs \<Rightarrow> company_display_name company)
            (\<lambda>company_name'.
          and_then (fetch_fathom_transcripts w deal_id) (\<lambda>transcripts.
            if transcripts = [] then returns (Failed NoFathomSummaries)
            else propose w portal_id deal_id company_name' transcripts)))))))"

text \<open>
  \<^verbatim>\<open>run_workflow\<close>, lines 288 to 306: the preconditions, checked in source order,
  then \<open>run_phases\<close>. The credentials are the environment variables, given as a
  \<open>config\<close>.
\<close>

definition run_workflow :: "config \<Rightarrow> world \<Rightarrow> string \<Rightarrow> workflow_result io" where
  "run_workflow cfg w deal_url =
     (if falsy (HUBSPOT_API_KEY cfg) \<or> falsy (HUBSPOT_PORTAL_ID cfg)
      then returns (Failed MissingHubspotConfig)
      else if falsy (ANTHROPIC_API_KEY cfg) then returns (Failed MissingAnthropicKey)
      else
        (case parse_deal_url deal_url of
           None \<Rightarrow> returns (Failed InvalidDealUrl)
         | Some (url_portal, deal_id) \<Rightarrow>
             (case HUBSPOT_PORTAL_ID cfg of
                None \<Rightarrow> returns (Failed MissingHubspotConfig)
              | Some portal_id \<Rightarrow>
                  if url_portal \<noteq> portal_id
                  then returns (Failed (PortalMismatch url_portal portal_id))
                  else run_phases w portal_id deal_id)))"

section \<open>Example configurations and upstream behaviours\<close>

text \<open>Concrete inputs on which the theorems below are instantiated.\<close>

definition example_config :: config where
  "example_config =
     \<lparr>HUBSPOT_API_KEY = Some ''pat-na1-0000'', HUBSPOT_PORTAL_ID = Some ''21656838'',
      ANTHROPIC_API_KEY = Some ''sk-ant-0000''\<rparr>"

definition example_url :: string where
  "example_url = ''https://app.hubspot.com/contacts/21656838/record/0-3/12345''"

definition notes_m1 :: string where
  "notes_m1 = ''AI Meeting Summary: CRM reporting; pipeline and quota''"

definition notes_m2 :: string where
  "notes_m2 = ''Generated by Fathom. Dashboards, duplicates; forecasting, win rate''"

definition ann :: crm_object where
  "ann = \<lparr>properties = Some [(''firstname'', ''Ann'')]\<rparr>"

definition acme :: crm_object where
  "acme = \<lparr>properties = Some [(''name'', ''Acme'')]\<rparr>"

text \<open>
  A deal with one company, two contacts (the second of which answers 404) and two
  meetings whose Fathom summaries each name two CRM indicators and two sales-pipeline
  indicators.
\<close>

definition example_world :: world where
  "example_world =
     \<lparr>get_deal = (\<lambda>deal_id.
        Inr \<lparr>dealname = Some ''Acme renewal'', company_results = [Some ''c1''],
             contact_results = [Some ''p1'', Some ''p2'']\<rparr>),
      get_company = (\<lambda>cid. Inr acme),
      get_contact = (\<lambda>cid. if cid = ''p2'' then Inl (HTTPError ''404'') else Inr ann),
      get_meeting_associations = (\<lambda>deal_id. Inr [Some ''m1'', Some ''m2'']),
      get_meeting = (\<lambda>meeting_id.
        Inr \<lparr>properties = Some [(''hs_internal_meeting_notes'',
          if meeting_id = ''m1'' then notes_m1 else notes_m2)]\<rparr>),
      get_products =
        Inr [\<lparr>hs_sku = Some ''CGO-CRM'', product_id = Some ''901''\<rparr>,
             \<lparr>hs_sku = Some ''CGO-SALESOPS'', product_id = Some ''902''\<rparr>,
             \<lparr>hs_sku = Some ''CGO-MKTOPS'', product_id = Some ''903''\<rparr>],
      post_quote = (\<lambda>q. Inr (Some ''777'')),
      post_line_item = (\<lambda>li. Inr (Some (''li'' @ hs_product_id li))),
      put_association = (\<lambda>quote_id line_item_id. Inr ()),
      call_claude = (\<lambda>request. Inr ''<h3>Plan</h3>''),
      expiration_date = ''2026-12-04''\<rparr>"

text \<open>The same deal when the company read and the meeting listing answer with an HTTP error.\<close>

definition crm_partly_down :: world where
  "crm_partly_down =
     example_world\<lparr>get_company := (\<lambda>cid. if cid = ''c1'' then Inl (HTTPError ''404'') else Inr acme),
       get_meeting_associations := (\<lambda>deal_id. Inl (HTTPError ''500''))\<rparr>"

text \<open>The same deal when the product catalog lookup answers 503.\<close>

definition products_down :: world where
  "products_down = example_world\<lparr>get_products := Inl (HTTPError ''503'')\<rparr>"

text \<open>The same deal when creating a line item answers 400.\<close>

definition line_items_rejected :: world where
  "line_items_rejected = example_world\<lparr>post_line_item := (\<lambda>li. Inl (HTTPError ''400''))\<rparr>"

text \<open>The same deal when the quote write answers 422.\<close>

definition quote_rejected :: world where
  "quote_rejected = example_world\<lparr>post_quote := (\<lambda>q. Inl (HTTPError ''422''))\<rparr>"

text \<open>The same deal when associating a line item to the quote answers 409.\<close>

definition association_rejected :: world where
  "association_rejected =
     example_world\<lparr>put_association := (\<lambda>quote_id line_item_id. Inl (HTTPError ''409''))\<rparr>"

text \<open>The same deal when listing its meetings times out.\<close>

definition listing_times_out :: world where
  "listing_times_out = example_world\<lparr>get_meeting_associations := (\<lambda>deal_id. Inl Timeout)\<rparr>"

text \<open>The same deal when the read of contact p2 ends in a connection failure.\<close>

definition contact_unreachable :: world where
  "contact_unreachable =
     example_world\<lparr>get_contact := (\<lambda>cid. if cid = ''p2'' then Inl ConnectionError else Inr ann)\<rparr>"

text \<open>The same deal when the read of company c1 times out.\<close>

definition company_times_out :: world where
  "company_times_out =
     example_world\<lparr>get_company := (\<lambda>cid. if cid = ''c1'' then Inl Timeout else Inr acme)\<rparr>"

text \<open>The same deal when the deal read times out.\<close>

definition deal_times_out :: world where
  "deal_times_out = example_world\<lparr>get_deal := (\<lambda>deal_id. Inl Timeout)\<rparr>"

text \<open>The same deal when the summaries name no indicator at all.\<close>

definition quiet_notes :: string where
  "quiet_notes = ''AI Meeting Summary: introductions, next steps agreed''"

definition quiet_world :: world where
  "quiet_world =
     example_world\<lparr>get_meeting := (\<lambda>meeting_id.
        Inr \<lparr>properties = Some [(''hs_internal_meeting_notes'', quiet_notes)]\<rparr>)\<rparr>"

section \<open>Properties of the workflow\<close>

subsection \<open>Sequencing and exception handling\<close>

lemma and_then_Inr: "and_then (Inr x, tr) k = (fst (k x), tr @ snd (k x))"
  by (simp add: and_then_def split: prod.splits)

lemma and_then_Inl: "and_then (Inl e, tr) k = (Inl e, tr)"
  by (simp add: and_then_def)

lemma and_then_returns: "and_then (returns x) k = k x"
  by (simp add: and_then_def returns_def split: prod.splits)

lemma try_except_Inr: "try_except (Inr x, tr) h = (Inr x, tr)"
  by (simp add: try_except_def)

lemma try_except_http: "try_except (Inl (HTTPError msg), tr) h = (fst (h msg), tr @ snd (h msg))"
  by (simp add: try_except_def split: prod.splits)

lemma try_or_return_Inr: "try_or_return (Inr x, tr) h k = (fst (k x), tr @ snd (k x))"
  by (simp add: try_or_return_def split: prod.splits)

lemma try_or_return_http: "try_or_return (Inl (HTTPError msg), tr) h k = (Inr (h msg), tr)"
  by (simp add: try_or_return_def)

lemma try_or_return_other:
  "(\<And>msg. e \<noteq> HTTPError msg) \<Longrightarrow> try_or_return (Inl e, tr) h k = (Inl e, tr)"
  by (cases e) (auto simp: try_or_return_def)

lemma try_except_other:
  "(\<And>msg. e \<noteq> HTTPError msg) \<Longrightarrow> try_except (Inl e, tr) h = (Inl e, tr)"
  by (cases e) (auto simp: try_except_def)

lemmas io_simps = and_then_Inr and_then_Inl try_except_Inr try_except_http try_or_return_Inr
  try_or_return_http perform_def returns_def raises_def

subsection \<open>Tolerant fetchers\<close>

lemma fetch_contacts_loop_all_ok:
  "map (get_contact w) cids = map Inr ds \<Longrightarrow>
   fetch_contacts_loop w cids acc = (Inr (acc @ ds), map GetContact cids)"
proof (induction cids arbitrary: acc ds)
  case Nil
  then show ?case by (simp add: returns_def)
next
  case (Cons cid cids)
  then obtain d ds' where ds: "ds = d # ds'" "get_contact w cid = Inr d"
      "map (get_contact w) cids = map Inr ds'"
    by (cases ds) auto
  from Cons.IH [OF ds(3)] ds(1,2) show ?case
    by (simp add: io_simps)
qed

lemma fetch_contacts_loop_one_failure:
  assumes "map (get_contact w) ids1 = map Inr pre"
    and "get_contact w cid = Inl (HTTPError msg)"
    and "map (get_contact w) ids2 = map Inr post"
  shows "fetch_contacts_loop w (ids1 @ cid # ids2) acc =
      (Inr (acc @ pre @ post), map GetContact (ids1 @ cid # ids2))"
  using assms(1)
proof (induction ids1 arbitrary: acc pre)
  case Nil
  then show ?case
    using assms(2,3) by (simp add: io_simps fetch_contacts_loop_all_ok)
next
  case (Cons i ids1)
  then obtain d pre' where ds: "pre = d # pre'" "get_contact w i = Inr d"
      "map (get_contact w) ids1 = map Inr pre'"
    by (cases pre) auto
  from Cons.IH [OF ds(3)] ds(1,2) show ?case
    by (simp add: io_simps)
qed


lemma fetch_companies_loop_all_ok:
  "map (get_company w) cids = map Inr ds \<Longrightarrow>
   fetch_companies_loop w cids acc = (Inr (acc @ ds), map GetCompany cids)"
proof (induction cids arbitrary: acc ds)
  case Nil
  then show ?case by (simp add: returns_def)
next
  case (Cons cid cids)
  then obtain d ds' where ds: "ds = d # ds'" "get_company w cid = Inr d"
      "map (get_company w) cids = map Inr ds'"
    by (cases ds) auto
  from Cons.IH [OF ds(3)] ds(1,2) show ?case
    by (simp add: io_simps)
qed

lemma fetch_companies_loop_one_failure:
  assumes "map (get_company w) ids1 = map Inr pre"
    and "get_company w cid = Inl (HTTPError msg)"
    and "map (get_company w) ids2 = map Inr post"
  shows "fetch_companies_loop w (ids1 @ cid # ids2) acc =
      (Inr (acc @ pre @ post), map GetCompany (ids1 @ cid # ids2))"
  using assms(1)
proof (induction ids1 arbitrary: acc pre)
  case Nil
  then show ?case
    using assms(2,3) by (simp add: io_simps fetch_companies_loop_all_ok)
next
  case (Cons i ids1)
  then obtain d pre' where ds: "pre = d # pre'" "get_company w i = Inr d"
      "map (get_company w) ids1 = map Inr pre'"
    by (cases pre) auto
  from Cons.IH [OF ds(3)] ds(1,2) show ?case
    by (simp add: io_simps)
qed

subsection \<open>Which calls a phase makes\<close>

lemma fetch_companies_loop_trace:
  "set (snd (fetch_companies_loop w ids acc)) \<subseteq> GetCompany ` set ids"
proof (induction ids arbitrary: acc)
  case Nil
  show ?case by (simp add: returns_def)
next
  case (Cons cid cids)
  show ?case
  proof (cases "get_company w cid")
    case (Inr d)
    with Cons [of "acc @ [d]"] show ?thesis by (auto simp: io_simps)
  next
    case (Inl e)
    with Cons [of acc] show ?thesis
      by (cases e) (auto simp: io_simps try_except_other)
  qed
qed

lemma fetch_contacts_loop_trace:
  "set (snd (fetch_contacts_loop w ids acc)) \<subseteq> GetContact ` set ids"
proof (induction ids arbitrary: acc)
  case Nil
  show ?case by (simp add: returns_def)
next
  case (Cons cid cids)
  show ?case
  proof (cases "get_contact w cid")
    case (Inr d)
    with Cons [of "acc @ [d]"] show ?thesis by (auto simp: io_simps)
  next
    case (Inl e)
    with Cons [of acc] show ?thesis
      by (cases e) (auto simp: io_simps try_except_other)
  qed
qed

lemma no_listing_in_companies:
  "GetMeetingAssociations d \<notin> set (snd (fetch_companies w ids))"
  using fetch_companies_loop_trace [of w ids "[]"] by (auto simp: fetch_companies_def)

lemma no_listing_in_contacts:
  "GetMeetingAssociations d \<notin> set (snd (fetch_contacts w ids))"
  using fetch_contacts_loop_trace [of w ids "[]"] by (auto simp: fetch_contacts_def)

lemma ids_of_trace: "snd (ids_of rs) = []"
  by (simp add: ids_of_def returns_def raises_def split: option.splits)

lemma company_display_name_trace: "snd (company_display_name c) = []"
  by (simp add: company_display_name_def returns_def raises_def split: option.splits)

lemma fst_and_then:
  "fst (and_then m k) = (case fst m of Inl e \<Rightarrow> Inl e | Inr x \<Rightarrow> fst (k x))"
  by (cases m) (simp add: and_then_def split: sum.splits prod.splits)

lemma snd_and_then:
  "snd (and_then m k) = (case fst m of Inl e \<Rightarrow> snd m | Inr x \<Rightarrow> snd m @ snd (k x))"
  by (cases m) (simp add: and_then_def split: sum.splits prod.splits)

lemma run_phases_reaches_transcripts:
  assumes "GetMeetingAssociations d \<in> set (snd (run_phases w p d))"
  shows "\<exists>c. fst (run_phases w p d) =
      fst (and_then (fetch_fathom_transcripts w d)
         (\<lambda>transcripts. if transcripts = [] then returns (Failed NoFathomSummaries)
             else propose w p d c transcripts))"
proof (cases "get_deal w d")
  case (Inl e)
  with assms show ?thesis
    by (cases e) (simp_all add: run_phases_def fetch_deal_def perform_def try_or_return_def)
next
  case (Inr deal_resp)
  define deal_name where
    "deal_name = (case dealname deal_resp of None \<Rightarrow> ''Unknown Deal'' | Some n \<Rightarrow> n)"
  define rest where "rest =
    and_then (ids_of (company_results deal_resp)) (\<lambda>company_ids.
    and_then (ids_of (contact_results deal_resp)) (\<lambda>contact_ids.
    and_then (fetch_companies w company_ids) (\<lambda>companies.
    and_then (fetch_contacts w contact_ids) (\<lambda>contacts.
    and_then
      (case companies of [] \<Rightarrow> returns deal_name
       | company # cs \<Rightarrow> company_display_name company)
      (\<lambda>company_name'.
    and_then (fetch_fathom_transcripts w d) (\<lambda>transcripts.
      if transcripts = [] then returns (Failed NoFathomSummaries)
      else propose w p d company_name' transcripts))))))"
  have run: "run_phases w p d = (fst rest, GetDeal d # snd rest)"
    using Inr unfolding rest_def deal_name_def
    by (simp add: run_phases_def fetch_deal_def perform_def try_or_return_Inr)
  with assms have in_rest: "GetMeetingAssociations d \<in> set (snd rest)" by simp
  have name_trace: "snd (case companies of [] \<Rightarrow> returns deal_name
       | company # cs \<Rightarrow> company_display_name company) = []" for companies
    by (cases companies) (simp_all add: returns_def company_display_name_trace)
  from in_rest obtain c where
    "fst rest = fst (and_then (fetch_fathom_transcripts w d)
         (\<lambda>transcripts. if transcripts = [] then returns (Failed NoFathomSummaries)
             else propose w p d c transcripts))"
    unfolding rest_def
    by (auto simp: fst_and_then snd_and_then ids_of_trace name_trace
        no_listing_in_companies no_listing_in_contacts split: sum.splits)
  with run show ?thesis by auto
qed


lemma run_workflow_reaches_phases:
  assumes "parse_deal_url url = Some (p, d)" and "snd (run_workflow cfg w url) \<noteq> []"
  shows "run_workflow cfg w url = run_phases w p d"
  using assms by (auto simp: run_workflow_def returns_def split: if_splits option.splits)

subsection \<open>What a successful run has done\<close>

lemma fst_try_or_return:
  "fst (try_or_return m h k) =
     (case fst m of
        Inl e \<Rightarrow> (case e of HTTPError msg \<Rightarrow> Inr (h msg) | _ \<Rightarrow> Inl e)
      | Inr x \<Rightarrow> fst (k x))"
  by (cases m) (simp add: try_or_return_def split: sum.splits prod.splits exn.splits)

lemma line_items_loop_success:
  "fst (line_items_loop w m qid svcs) = Inr u \<Longrightarrow>
   svc \<in> set svcs \<Longrightarrow> map_of m (sku svc) = Some pid \<Longrightarrow> pid \<noteq> [] \<Longrightarrow>
   \<exists>li. post_line_item w (line_item_of pid svc) = Inr (Some li)
      \<and> put_association w qid li = Inr ()"
proof (induction svcs)
  case Nil
  then show ?case by simp
next
  case (Cons s svcs)
  show ?case
  proof (cases "map_of m (sku s) = None \<or> map_of m (sku s) = Some []")
    case True
    with Cons.prems have "fst (line_items_loop w m qid svcs) = Inr u" "svc \<noteq> s"
      by auto
    with Cons show ?thesis by auto
  next
    case False
    then obtain q where q: "map_of m (sku s) = Some q" "q \<noteq> []"
      by auto
    from Cons.prems(1) q obtain li where li: "post_line_item w (line_item_of q s) = Inr (Some li)"
      "put_association w qid li = Inr ()" "fst (line_items_loop w m qid svcs) = Inr u"
      by (auto simp: fst_and_then perform_def raises_def Let_def
          split: sum.splits option.splits)
    show ?thesis
    proof (cases "svc = s")
      case True
      with q li Cons.prems show ?thesis by auto
    next
      case False
      with Cons li show ?thesis by auto
    qed
  qed
qed

lemma create_quote_success:
  assumes "fst (create_quote_and_line_items w p d c svcs es pv) = Inr url"
  shows "\<exists>m qid. fst (fetch_products w) = Inr m
      \<and> post_quote w \<lparr>hs_title = ''CGO in a Box Proposal - '' @ c,
             hs_expiration_date = expiration_date w, hs_comments = es,
             cgo_90_day_preview = pv, deal_association = d\<rparr> = Inr (Some qid)
      \<and> fst (line_items_loop w m qid svcs) = Inr ()
      \<and> url = quote_url_of p qid"
  using assms
  by (auto simp: create_quote_and_line_items_def fst_and_then perform_def raises_def
      returns_def Let_def split: sum.splits option.splits)

lemma create_quote_http_error:
  "get_products w = Inl (HTTPError msg) \<Longrightarrow>
   fst (create_quote_and_line_items w p d c svcs es pv) = Inl (HTTPError msg)"
  by (simp add: create_quote_and_line_items_def fetch_products_def fst_and_then perform_def)

lemma propose_success:
  assumes "fst (propose w p d c ts) = Inr (Succeeded url c' tot ns)"
  shows "c' = c \<and> tot = snd (select_services ts) \<and> ns = map name (fst (select_services ts))
     \<and> (\<exists>es pv. fst (create_quote_and_line_items w p d c (fst (select_services ts)) es pv) = Inr url)"
  using assms
  by (auto simp: propose_def fst_try_or_return fst_and_then returns_def
      split: prod.splits sum.splits exn.splits)

lemma propose_quote_failure:
  assumes "select_services ts = (svcs, tot)"
    and "fst (generate_executive_summary w ts c svcs tot) = Inr es"
    and "fst (generate_90_day_preview w ts c) = Inr pv"
    and "fst (create_quote_and_line_items w p d c svcs es pv) = Inl (HTTPError msg)"
  shows "fst (propose w p d c ts) = Inr (Failed (QuoteCreationError msg))"
  using assms
  by (simp add: propose_def fst_try_or_return fst_and_then returns_def)

lemma run_phases_success:
  assumes "fst (run_phases w p d) = Inr (Succeeded url c tot ns)"
  shows "\<exists>ts c'. fst (fetch_fathom_transcripts w d) = Inr ts \<and> ts \<noteq> []
      \<and> fst (propose w p d c' ts) = Inr (Succeeded url c tot ns)"
  using assms
  by (auto simp: run_phases_def fst_try_or_return fst_and_then returns_def Let_def
      split: sum.splits exn.splits if_splits)

lemma run_workflow_success:
  assumes "fst (run_workflow cfg w url) = Inr (Succeeded u c tot ns)"
  shows "\<exists>p d. parse_deal_url url = Some (p, d) \<and> HUBSPOT_PORTAL_ID cfg = Some p
      \<and> fst (run_phases w p d) = Inr (Succeeded u c tot ns)"
  using assms
  by (auto simp: run_workflow_def returns_def split: if_splits option.splits)

subsection \<open>Calls of the quote assembly that fail\<close>

lemma snd_try_or_return:
  "snd (try_or_return m h k) = (case fst m of Inl e \<Rightarrow> snd m | Inr x \<Rightarrow> snd m @ snd (k x))"
  by (cases m) (simp add: try_or_return_def split: sum.splits prod.splits exn.splits)

lemma products_loop_trace: "snd (products_loop ps acc) = []"
  by (induction ps acc rule: products_loop.induct)
    (simp_all add: returns_def raises_def split: option.splits)

lemma fetch_products_trace: "snd (fetch_products w) = [GetProducts]"
  by (simp add: fetch_products_def snd_and_then perform_def products_loop_trace split: sum.splits)

lemma fetch_products_failure: "get_products w = Inl e \<Longrightarrow> fst (fetch_products w) = Inl e"
  by (simp add: fetch_products_def fst_and_then perform_def)

lemma line_items_loop_quote_id:
  "PutAssociation q l \<in> set (snd (line_items_loop w m qid svcs)) \<Longrightarrow> q = qid"
proof (induction svcs)
  case Nil
  then show ?case by (simp add: returns_def)
next
  case (Cons s svcs)
  then show ?case
    by (auto simp: snd_and_then perform_def raises_def Let_def
        split: option.splits sum.splits if_splits)
qed

lemma line_items_loop_post_failure:
  "PostLineItem li \<in> set (snd (line_items_loop w m qid svcs)) \<Longrightarrow>
   post_line_item w li = Inl e \<Longrightarrow> fst (line_items_loop w m qid svcs) = Inl e"
proof (induction svcs)
  case Nil
  then show ?case by (simp add: returns_def)
next
  case (Cons s svcs)
  then show ?case
    by (auto simp: fst_and_then snd_and_then perform_def raises_def Let_def
        split: option.splits sum.splits if_splits)
qed

lemma line_items_loop_put_failure:
  "PutAssociation q l \<in> set (snd (line_items_loop w m qid svcs)) \<Longrightarrow>
   put_association w q l = Inl e \<Longrightarrow> fst (line_items_loop w m qid svcs) = Inl e"
proof (induction svcs)
  case Nil
  then show ?case by (simp add: returns_def)
next
  case (Cons s svcs)
  then show ?case
    by (auto simp: fst_and_then snd_and_then perform_def raises_def Let_def
        split: option.splits sum.splits if_splits)
qed

lemma create_quote_post_quote_failure:
  assumes "PostQuote q \<in> set (snd (create_quote_and_line_items w p d c svcs es pv))"
    and "post_quote w q = Inl e"
  shows "fst (create_quote_and_line_items w p d c svcs es pv) = Inl e"
proof -
  have "PostQuote q \<notin> set (snd (line_items_loop w m qid svcs))" for m qid
    by (induction svcs)
      (auto simp: returns_def snd_and_then perform_def raises_def Let_def
        split: option.splits sum.splits if_splits)
  with assms show ?thesis
    by (auto simp: create_quote_and_line_items_def fst_and_then snd_and_then
        fetch_products_trace perform_def raises_def returns_def Let_def
        split: option.splits sum.splits if_splits)
qed

lemma create_quote_line_item_failure:
  assumes "PostLineItem li \<in> set (snd (create_quote_and_line_items w p d c svcs es pv))"
    and "post_line_item w li = Inl e"
  shows "fst (create_quote_and_line_items w p d c svcs es pv) = Inl e"
  using assms
  by (auto simp: create_quote_and_line_items_def fst_and_then snd_and_then
      fetch_products_trace perform_def raises_def returns_def Let_def
      line_items_loop_post_failure
      split: option.splits sum.splits if_splits)

lemma create_quote_association_failure:
  assumes "PutAssociation q l \<in> set (snd (create_quote_and_line_items w p d c svcs es pv))"
    and "put_association w q l = Inl e"
  shows "fst (create_quote_and_line_items w p d c svcs es pv) = Inl e"
  using assms
  by (auto simp: create_quote_and_line_items_def fst_and_then snd_and_then
      fetch_products_trace perform_def raises_def returns_def Let_def
      line_items_loop_put_failure
      split: option.splits sum.splits if_splits)

lemma create_quote_products_failure:
  "get_products w = Inl e \<Longrightarrow> fst (create_quote_and_line_items w p d c svcs es pv) = Inl e"
  by (simp add: create_quote_and_line_items_def fst_and_then fetch_products_failure)

lemma create_quote_write_failure:
  assumes "fst (fetch_products w) = Inr m"
    and "post_quote w \<lparr>hs_title = ''CGO in a Box Proposal - '' @ c,
             hs_expiration_date = expiration_date w, hs_comments = es,
             cgo_90_day_preview = pv, deal_association = d\<rparr> = Inl e"
  shows "fst (create_quote_and_line_items w p d c svcs es pv) = Inl e"
  using assms
  by (simp add: create_quote_and_line_items_def fst_and_then perform_def Let_def)

lemma narrative_trace:
  "set (snd (generate_executive_summary w ts c svcs tot)) \<subseteq> range CallClaude"
  "set (snd (generate_90_day_preview w ts c)) \<subseteq> range CallClaude"
  by (simp_all add: generate_executive_summary_def generate_90_day_preview_def Let_def
      perform_def)

lemma propose_quote_call:
  assumes "c \<in> set (snd (propose w p d cn ts))" and "c \<notin> range CallClaude"
  shows "\<exists>es pv.
      c \<in> set (snd (create_quote_and_line_items w p d cn (fst (select_services ts)) es pv))
      \<and> fst (propose w p d cn ts) =
          (case fst (create_quote_and_line_items w p d cn (fst (select_services ts)) es pv) of
             Inl e \<Rightarrow> (case e of HTTPError msg \<Rightarrow> Inr (Failed (QuoteCreationError msg))
                        | _ \<Rightarrow> Inl e)
           | Inr quote_url \<Rightarrow>
               Inr (Succeeded quote_url cn (snd (select_services ts))
                      (map name (fst (select_services ts)))))"
proof -
  obtain svcs tot where sel: "select_services ts = (svcs, tot)"
    by (cases "select_services ts")
  have n1: "c \<notin> set (snd (generate_executive_summary w ts cn svcs tot))"
    using narrative_trace(1) [of w ts cn svcs tot] assms(2) by blast
  have n2: "c \<notin> set (snd (generate_90_day_preview w ts cn))"
    using narrative_trace(2) [of w ts cn] assms(2) by blast
  from assms(1) n1 n2 obtain es pv where
    g: "fst (generate_executive_summary w ts cn svcs tot) = Inr es"
      "fst (generate_90_day_preview w ts cn) = Inr pv"
    and c: "c \<in> set (snd (create_quote_and_line_items w p d cn svcs es pv))"
    unfolding propose_def sel
    by (auto simp: snd_try_or_return fst_and_then snd_and_then returns_def split: sum.splits)
  have "fst (propose w p d cn ts) =
      (case fst (create_quote_and_line_items w p d cn svcs es pv) of
         Inl e \<Rightarrow> (case e of HTTPError msg \<Rightarrow> Inr (Failed (QuoteCreationError msg))
                    | _ \<Rightarrow> Inl e)
       | Inr quote_url \<Rightarrow> Inr (Succeeded quote_url cn tot (map name svcs)))"
    unfolding propose_def sel using g
    by (simp add: fst_try_or_return fst_and_then returns_def split: sum.splits exn.splits)
  with c show ?thesis
    unfolding sel fst_conv snd_conv by (intro exI conjI)
qed

lemma fetch_transcripts_loop_trace:
  "set (snd (fetch_transcripts_loop w rs acc)) \<subseteq> range GetMeeting"
proof (induction rs arbitrary: acc)
  case Nil
  show ?case by (simp add: returns_def)
next
  case (Cons r rs)
  show ?case
  proof (cases r)
    case None
    with Cons show ?thesis by simp
  next
    case (Some mid)
    show ?thesis
    proof (cases "mid = []")
      case True
      with Some Cons show ?thesis by simp
    next
      case False
      show ?thesis
      proof (cases "get_meeting w mid")
        case (Inr m)
        with Some False Cons [of "if is_fathom_summary (meeting_notes m)
            then acc @ [meeting_notes m] else acc"] show ?thesis
          by (auto simp: io_simps Let_def)
      next
        case (Inl e)
        with Some False Cons [of acc] show ?thesis
          by (cases e) (auto simp: io_simps try_except_other)
      qed
    qed
  qed
qed

lemma fetch_fathom_transcripts_trace:
  "set (snd (fetch_fathom_transcripts w d)) \<subseteq> range GetMeetingAssociations \<union> range GetMeeting"
  using fetch_transcripts_loop_trace [of w _ "[]"]
  by (auto simp: fetch_fathom_transcripts_def snd_try_or_return perform_def
      split: sum.splits)

lemma run_phases_quote_call:
  assumes "c \<in> set (snd (run_phases w p d))"
    and "c \<notin> range GetDeal \<union> range GetCompany \<union> range GetContact
           \<union> range GetMeetingAssociations \<union> range GetMeeting"
  shows "\<exists>cn ts. c \<in> set (snd (propose w p d cn ts))
      \<and> fst (run_phases w p d) = fst (propose w p d cn ts)"
proof (cases "get_deal w d")
  case (Inl e)
  with assms show ?thesis
    by (cases e) (auto simp: run_phases_def fetch_deal_def perform_def try_or_return_def)
next
  case (Inr deal_resp)
  define deal_name where
    "deal_name = (case dealname deal_resp of None \<Rightarrow> ''Unknown Deal'' | Some n \<Rightarrow> n)"
  define rest where "rest =
    and_then (ids_of (company_results deal_resp)) (\<lambda>company_ids.
    and_then (ids_of (contact_results deal_resp)) (\<lambda>contact_ids.
    and_then (fetch_companies w company_ids) (\<lambda>companies.
    and_then (fetch_contacts w contact_ids) (\<lambda>contacts.
    and_then
      (case companies of [] \<Rightarrow> returns deal_name
       | company # cs \<Rightarrow> company_display_name company)
      (\<lambda>company_name'.
    and_then (fetch_fathom_transcripts w d) (\<lambda>transcripts.
      if transcripts = [] then returns (Failed NoFathomSummaries)
      else propose w p d company_name' transcripts))))))"
  have run: "run_phases w p d = (fst rest, GetDeal d # snd rest)"
    using Inr unfolding rest_def deal_name_def
    by (simp add: run_phases_def fetch_deal_def perform_def try_or_return_Inr)
  with assms have in_rest: "c \<in> set (snd rest)" by auto
  have name_trace: "snd (case companies of [] \<Rightarrow> returns deal_name
       | company # cs \<Rightarrow> company_display_name company) = []" for companies
    by (cases companies) (simp_all add: returns_def company_display_name_trace)
  have co: "c \<notin> set (snd (fetch_companies w ids))" for ids
    using fetch_companies_loop_trace [of w ids "[]"] assms(2) by (auto simp: fetch_companies_def)
  have ct: "c \<notin> set (snd (fetch_contacts w ids))" for ids
    using fetch_contacts_loop_trace [of w ids "[]"] assms(2) by (auto simp: fetch_contacts_def)
  have tr: "c \<notin> set (snd (fetch_fathom_transcripts w d))"
    using fetch_fathom_transcripts_trace [of w d] assms(2) by blast
  from in_rest obtain cn ts where "c \<in> set (snd (propose w p d cn ts))"
    "fst rest = fst (propose w p d cn ts)"
    unfolding rest_def
    by (auto simp: fst_and_then snd_and_then ids_of_trace name_trace co ct tr returns_def
        split: sum.splits if_splits)
  with run show ?thesis by auto
qed

lemma run_workflow_quote_call:
  assumes "c \<in> set (snd (run_workflow cfg w url))"
    and "c \<notin> range GetDeal \<union> range GetCompany \<union> range GetContact
           \<union> range GetMeetingAssociations \<union> range GetMeeting \<union> range CallClaude"
  shows "\<exists>p d cn svcs es pv.
      c \<in> set (snd (create_quote_and_line_items w p d cn svcs es pv))
      \<and> (\<forall>msg. fst (create_quote_and_line_items w p d cn svcs es pv) = Inl (HTTPError msg) \<longrightarrow>
            fst (run_workflow cfg w url) = Inr (Failed (QuoteCreationError msg)))"
proof -
  from assms(1) obtain p d where r: "run_workflow cfg w url = run_phases w p d"
    by (auto simp: run_workflow_def returns_def split: if_splits option.splits)
  from assms have "c \<in> set (snd (run_phases w p d))"
    and "c \<notin> range GetDeal \<union> range GetCompany \<union> range GetContact
           \<union> range GetMeetingAssociations \<union> range GetMeeting"
    unfolding r by auto
  from run_phases_quote_call [OF this] obtain cn ts where
    a: "c \<in> set (snd (propose w p d cn ts))"
    and b: "fst (run_phases w p d) = fst (propose w p d cn ts)"
    by blast
  from assms(2) have "c \<notin> range CallClaude" by auto
  from propose_quote_call [OF a this] obtain es pv where
    e: "c \<in> set (snd (create_quote_and_line_items w p d cn (fst (select_services ts)) es pv))"
    and f: "fst (propose w p d cn ts) =
          (case fst (create_quote_and_line_items w p d cn (fst (select_services ts)) es pv) of
             Inl e \<Rightarrow> (case e of HTTPError msg \<Rightarrow> Inr (Failed (QuoteCreationError msg))
                        | _ \<Rightarrow> Inl e)
           | Inr quote_url \<Rightarrow>
               Inr (Succeeded quote_url cn (snd (select_services ts))
                      (map name (fst (select_services ts)))))"
    by blast
  have "\<forall>msg. fst (create_quote_and_line_items w p d cn (fst (select_services ts)) es pv) =
        Inl (HTTPError msg) \<longrightarrow>
      fst (run_workflow cfg w url) = Inr (Failed (QuoteCreationError msg))"
    unfolding r b f by simp
  with e show ?thesis by blast
qed

section \<open>Properties of the recommendation engine\<close>

lemma py_in_sublist: "py_in ind t = sublist ind t"
  by (induction t) (simp_all add: sublist_Cons_right)

lemma fold_score: "fold (\<lambda>ind score. if py_in ind t then score + 2 else score) inds (a::int)
    = a + 2 * int (length (filter (\<lambda>ind. py_in ind t) inds))"
  by (induction inds arbitrary: a) simp_all

lemma indicator_score_hits: "indicator_score t inds = 2 * int (hit_count t inds)"
  by (simp add: indicator_score_def hit_count_def fold_score)

lemma score_items_keys:
  "fst ` set (score_items t items scores) =
     fst ` set scores \<union>
     {k. k \<noteq> ''CGO-BUNDLE'' \<and> (\<exists>inds. (k, inds) \<in> set items \<and> 1 \<le> hit_count t inds)}"
proof (induction t items scores rule: score_items.induct)
  case (1 t scores)
  show ?case by simp
next
  case (2 t k inds items scores)
  show ?case
  proof (cases "k = ''CGO-BUNDLE''")
    case True
    with 2 show ?thesis by auto
  next
    case False
    show ?thesis
    proof (cases "1 \<le> hit_count t inds")
      case True
      then have "indicator_score t inds \<ge> 2"
        by (simp add: indicator_score_hits)
      with False 2
      have "fst ` set (score_items t ((k, inds) # items) scores) =
          fst ` set (AList.update k (indicator_score t inds) scores) \<union>
          {k. k \<noteq> ''CGO-BUNDLE'' \<and> (\<exists>inds. (k, inds) \<in> set items \<and> 1 \<le> hit_count t inds)}"
        by (simp add: Let_def)
      also have "\<dots> = fst ` set scores \<union>
          {k'. k' \<noteq> ''CGO-BUNDLE'' \<and>
            (\<exists>inds'. (k', inds') \<in> set ((k, inds) # items) \<and> 1 \<le> hit_count t inds')}"
        using True False unfolding AList.dom_update by auto
      finally show ?thesis .
    next
      case h: False
      then have "\<not> indicator_score t inds \<ge> 2"
        by (simp add: indicator_score_hits)
      with False 2
      have "fst ` set (score_items t ((k, inds) # items) scores) =
          fst ` set scores \<union>
          {k. k \<noteq> ''CGO-BUNDLE'' \<and> (\<exists>inds. (k, inds) \<in> set items \<and> 1 \<le> hit_count t inds)}"
        by (simp add: Let_def)
      also have "\<dots> = fst ` set scores \<union>
          {k'. k' \<noteq> ''CGO-BUNDLE'' \<and>
            (\<exists>inds'. (k', inds') \<in> set ((k, inds) # items) \<and> 1 \<le> hit_count t inds')}"
        using h by auto
      finally show ?thesis .
    qed
  qed
qed

lemma distinct_keys: "distinct (map fst PAIN_POINT_MAP)"
  by (simp add: PAIN_POINT_MAP_def)

lemma recommend_from_transcript_iff:
  "k \<in> recommend_from_transcript text \<longleftrightarrow> 1 \<le> sku_hits text k"
proof -
  have a: "k \<in> recommend_from_transcript text \<longleftrightarrow>
      k \<noteq> ''CGO-BUNDLE'' \<and> (\<exists>inds. (k, inds) \<in> set PAIN_POINT_MAP \<and> 1 \<le> hit_count (lower text) inds)"
    unfolding recommend_from_transcript_def Let_def set_map score_items_keys by simp
  have b: "map_of PAIN_POINT_MAP ''CGO-BUNDLE'' = None"
    by (simp add: PAIN_POINT_MAP_def)
  show ?thesis
  proof (cases "map_of PAIN_POINT_MAP k")
    case None
    then have "\<And>inds. (k, inds) \<notin> set PAIN_POINT_MAP"
      by (metis map_of_SomeD map_of_eq_None_iff weak_map_of_SomeI option.distinct(1))
    with None show ?thesis by (simp add: a sku_hits_def)
  next
    case (Some inds)
    then have "\<And>i. (k, i) \<in> set PAIN_POINT_MAP \<longleftrightarrow> i = inds"
      using distinct_keys by (metis map_of_is_SomeI map_of_SomeD option.inject)
    moreover from Some b have "k \<noteq> ''CGO-BUNDLE''" by auto
    ultimately show ?thesis using Some by (simp add: a sku_hits_def)
  qed
qed

lemma all_skus_Union: "all_skus ts = (\<Union>t \<in> set ts. recommend_from_transcript t)"
proof -
  have "fold (\<lambda>t acc. acc \<union> recommend_from_transcript t) ts A
      = A \<union> (\<Union>t \<in> set ts. recommend_from_transcript t)" for A
    by (induction ts arbitrary: A) auto
  then show ?thesis by (simp add: all_skus_def)
qed

lemma recommend_from_transcript_keys:
  "recommend_from_transcript text \<subseteq> set (map fst PAIN_POINT_MAP)"
  unfolding recommend_from_transcript_def Let_def set_map score_items_keys by force

lemma all_skus_keys: "all_skus ts \<subseteq> set (map fst PAIN_POINT_MAP)"
  using recommend_from_transcript_keys by (auto simp: all_skus_Union)

lemma keys_in_catalog: "set (map fst PAIN_POINT_MAP) \<subseteq> sku ` set SERVICES"
  by (simp add: PAIN_POINT_MAP_def SERVICES_def)

lemma distinct_catalog: "distinct (map sku SERVICES)"
  by (simp add: SERVICES_def)

lemma bundle_filter: "filter (\<lambda>s. sku s = ''CGO-BUNDLE'') SERVICES = [bundle_entry]"
  by (simp add: SERVICES_def bundle_entry_def)

lemma bundle_not_key: "''CGO-BUNDLE'' \<notin> set (map fst PAIN_POINT_MAP)"
  by (simp add: PAIN_POINT_MAP_def)

lemma selection_skus:
  "sku ` set (filter (\<lambda>s. sku s \<in> all_skus ts) SERVICES) = all_skus ts"
proof
  show "sku ` set (filter (\<lambda>s. sku s \<in> all_skus ts) SERVICES) \<subseteq> all_skus ts"
    by auto
  show "all_skus ts \<subseteq> sku ` set (filter (\<lambda>s. sku s \<in> all_skus ts) SERVICES)"
  proof
    fix k assume k: "k \<in> all_skus ts"
    with all_skus_keys [of ts] keys_in_catalog have "k \<in> sku ` set SERVICES" by blast
    then obtain s where "s \<in> set SERVICES" "sku s = k" by auto
    with k show "k \<in> sku ` set (filter (\<lambda>s. sku s \<in> all_skus ts) SERVICES)"
      by (auto simp: image_iff)
  qed
qed

lemma selection_length:
  "length (filter (\<lambda>s. sku s \<in> all_skus ts) SERVICES) = card (all_skus ts)"
proof -
  let ?L = "filter (\<lambda>s. sku s \<in> all_skus ts) SERVICES"
  have "distinct (map sku ?L)"
    using distinct_catalog by (rule distinct_map_filter)
  then have "card (set (map sku ?L)) = length ?L"
    using distinct_card by fastforce
  then show ?thesis using selection_skus [of ts] by simp
qed

lemma pain_point_keys:
  "set (map fst PAIN_POINT_MAP) =
     {''CGO-CRM'', ''CGO-MKTOPS'', ''CGO-SALESOPS'', ''CGO-DATA'', ''CGO-EMAIL'', ''CGO-LINKEDIN''}"
  by (simp add: PAIN_POINT_MAP_def)

lemma crm_salesops_only_transcript:
  assumes "2 \<le> sku_hits t ''CGO-CRM''" and "2 \<le> sku_hits t ''CGO-SALESOPS''"
    and "sku_hits t ''CGO-MKTOPS'' = 0" and "sku_hits t ''CGO-DATA'' = 0"
    and "sku_hits t ''CGO-EMAIL'' = 0" and "sku_hits t ''CGO-LINKEDIN'' = 0"
  shows "recommend_from_transcript t = {''CGO-CRM'', ''CGO-SALESOPS''}"
proof
  show "recommend_from_transcript t \<subseteq> {''CGO-CRM'', ''CGO-SALESOPS''}"
  proof
    fix k assume k: "k \<in> recommend_from_transcript t"
    then have h: "1 \<le> sku_hits t k"
      by (simp add: recommend_from_transcript_iff)
    from k recommend_from_transcript_keys [of t]
    have "k \<in> set (map fst PAIN_POINT_MAP)"
      by (rule rev_subsetD)
    then have "k \<in> {''CGO-CRM'', ''CGO-MKTOPS'', ''CGO-SALESOPS'', ''CGO-DATA'', ''CGO-EMAIL'',
        ''CGO-LINKEDIN''}"
      by (simp only: pain_point_keys)
    then have six: "k = ''CGO-CRM'' \<or> k = ''CGO-MKTOPS'' \<or> k = ''CGO-SALESOPS''
        \<or> k = ''CGO-DATA'' \<or> k = ''CGO-EMAIL'' \<or> k = ''CGO-LINKEDIN''"
      by (simp only: insert_iff empty_iff simp_thms)
    have "k \<noteq> ''CGO-MKTOPS''" using h assms(3) by (intro notI) simp
    moreover have "k \<noteq> ''CGO-DATA''" using h assms(4) by (intro notI) simp
    moreover have "k \<noteq> ''CGO-EMAIL''" using h assms(5) by (intro notI) simp
    moreover have "k \<noteq> ''CGO-LINKEDIN''" using h assms(6) by (intro notI) simp
    ultimately have "k = ''CGO-CRM'' \<or> k = ''CGO-SALESOPS''"
      using six by (simp only: simp_thms)
    then show "k \<in> {''CGO-CRM'', ''CGO-SALESOPS''}"
      by (simp only: insert_iff empty_iff simp_thms)
  qed
  show "{''CGO-CRM'', ''CGO-SALESOPS''} \<subseteq> recommend_from_transcript t"
    using assms(1,2) by (simp add: recommend_from_transcript_iff)
qed

lemma crm_salesops_only:
  assumes "ts \<noteq> []"
    and "\<forall>t \<in> set ts. 2 \<le> sku_hits t ''CGO-CRM'' \<and> 2 \<le> sku_hits t ''CGO-SALESOPS''
        \<and> sku_hits t ''CGO-MKTOPS'' = 0 \<and> sku_hits t ''CGO-DATA'' = 0
        \<and> sku_hits t ''CGO-EMAIL'' = 0 \<and> sku_hits t ''CGO-LINKEDIN'' = 0"
  shows "recommend_services ts = ([SERVICES ! 1, SERVICES ! 2], 5000)"
proof -
  from assms(2) have "\<forall>t \<in> set ts. recommend_from_transcript t = {''CGO-CRM'', ''CGO-SALESOPS''}"
    using crm_salesops_only_transcript by blast
  with assms(1) have "all_skus ts = {''CGO-CRM'', ''CGO-SALESOPS''}"
    unfolding all_skus_Union by (cases ts) auto
  then show ?thesis
    by (simp add: recommend_services_def SERVICES_def)
qed

lemma recommend_empty_iff: "fst (recommend_services ts) = [] \<longleftrightarrow> all_skus ts = {}"
proof -
  have fin: "finite (all_skus ts)"
    using all_skus_keys [of ts] finite_subset by blast
  show ?thesis
  proof (cases "4 \<le> card (all_skus ts)")
    case True
    then have "all_skus ts \<noteq> {}" by auto
    with True show ?thesis
      by (simp add: recommend_services_def bundle_filter)
  next
    case False
    have "fst (recommend_services ts) = [] \<longleftrightarrow>
        length (filter (\<lambda>s. sku s \<in> all_skus ts) SERVICES) = 0"
      using False by (simp add: recommend_services_def Let_def)
    also have "\<dots> \<longleftrightarrow> card (all_skus ts) = 0"
      unfolding selection_length ..
    also have "\<dots> \<longleftrightarrow> all_skus ts = {}"
      using fin by simp
    finally show ?thesis .
  qed
qed

lemma select_services_default:
  "all_skus ts = {} \<Longrightarrow> select_services ts = ([SERVICES ! 0], 3000)"
  using recommend_empty_iff [of ts]
  by (cases "recommend_services ts") (simp add: select_services_def)


lemma four_skus_example:
  "all_skus [''crm spam abm clay''] = {''CGO-CRM'', ''CGO-MKTOPS'', ''CGO-DATA'', ''CGO-EMAIL''}"
  by (simp add: all_skus_def recommend_from_transcript_def lower_def lower_char_def
      PAIN_POINT_MAP_def indicator_score_def insert_commute)

lemma two_skus_example:
  "all_skus [''CRM and our pipeline'', ''messy data''] = {''CGO-CRM'', ''CGO-SALESOPS''}"
  by (simp add: all_skus_def recommend_from_transcript_def lower_def lower_char_def
      PAIN_POINT_MAP_def indicator_score_def insert_commute)


section \<open>Indicator matching (claim C2)\<close>

text \<open>
  Claim C2, as stated, fails: the source adds 2 to a sku's score for each of its indicator
  phrases found, and the sku qualifies when the score is at least 2. A transcript with a
  single indicator hit for CRM Management makes that sku qualify.
\<close>

theorem single_hit_qualifies_counterexample:
  "sku_hits ''Our CRM is fine'' ''CGO-CRM'' = 1
   \<and> ''CGO-CRM'' \<in> recommend_from_transcript ''Our CRM is fine''"
  by (simp add: sku_hits_def hit_count_def recommend_from_transcript_def lower_def
      lower_char_def PAIN_POINT_MAP_def indicator_score_def)

text \<open>
  Claim C2, amended. For every transcript and every sku of the indicator table (none of
  which is the bundle), indicator matching is case-insensitive substring matching: the
  hit count is the number of the sku's indicator phrases that are contiguous substrings
  of the lower-cased transcript, and transcripts that differ only in letter case give the
  same result. A sku qualifies for the transcript if and only if its hit count is at
  least 1: each hit scores 2 and the threshold on the score is 2.
\<close>

theorem indicator_matching:
  "(k \<in> recommend_from_transcript t \<longleftrightarrow> 1 \<le> sku_hits t k)
   \<and> sku_hits t k =
       (case map_of PAIN_POINT_MAP k of
          None \<Rightarrow> 0
        | Some inds \<Rightarrow> length (filter (\<lambda>ind. sublist ind (lower t)) inds))
   \<and> indicator_score (lower t) inds = 2 * int (hit_count (lower t) inds)
   \<and> (lower t = lower t' \<longrightarrow> recommend_from_transcript t = recommend_from_transcript t')
   \<and> ''CGO-BUNDLE'' \<notin> fst ` set PAIN_POINT_MAP"
proof (intro conjI impI)
  show "k \<in> recommend_from_transcript t \<longleftrightarrow> 1 \<le> sku_hits t k"
    by (rule recommend_from_transcript_iff)
  show "sku_hits t k =
       (case map_of PAIN_POINT_MAP k of
          None \<Rightarrow> 0
        | Some inds \<Rightarrow> length (filter (\<lambda>ind. sublist ind (lower t)) inds))"
    by (simp add: sku_hits_def hit_count_def py_in_sublist split: option.splits)
  show "indicator_score (lower t) inds = 2 * int (hit_count (lower t) inds)"
    by (rule indicator_score_hits)
  show "recommend_from_transcript t = recommend_from_transcript t'" if "lower t = lower t'"
    using that by (simp add: recommend_from_transcript_def)
  show "''CGO-BUNDLE'' \<notin> fst ` set PAIN_POINT_MAP"
    using bundle_not_key by simp
qed

theorem indicator_matching_witness:
  "''CGO-CRM'' \<in> recommend_from_transcript ''Our CRM is fine''
   \<and> recommend_from_transcript ''Our CRM is fine'' = recommend_from_transcript ''OUR crm IS FINE''"
proof -
  have l: "lower ''Our CRM is fine'' = lower ''OUR crm IS FINE''"
    by (simp add: lower_def lower_char_def)
  have h: "sku_hits ''Our CRM is fine'' ''CGO-CRM'' = 1"
    by (simp add: sku_hits_def hit_count_def lower_def lower_char_def PAIN_POINT_MAP_def)
  note m = indicator_matching [of "''CGO-CRM''" "''Our CRM is fine''" "[]" "''OUR crm IS FINE''"]
  from m have a: "''CGO-CRM'' \<in> recommend_from_transcript ''Our CRM is fine''
      \<longleftrightarrow> 1 \<le> sku_hits ''Our CRM is fine'' ''CGO-CRM''"
    by (rule conjunct1)
  from m have b: "lower ''Our CRM is fine'' = lower ''OUR crm IS FINE'' \<longrightarrow>
      recommend_from_transcript ''Our CRM is fine'' = recommend_from_transcript ''OUR crm IS FINE''"
    by blast
  from a h have c: "''CGO-CRM'' \<in> recommend_from_transcript ''Our CRM is fine''"
    by simp
  from b l have d: "recommend_from_transcript ''Our CRM is fine'' =
      recommend_from_transcript ''OUR crm IS FINE''"
    by (rule mp)
  from c d show ?thesis
    by (rule conjI)
qed

section \<open>The bundle is never mixed (claim C10)\<close>

text \<open>
  Claim C10. For every transcript list, the selection of \<open>recommend_services\<close> is either
  the bundle entry alone, with the bundle's fixed price as total, or consists of
  non-bundle entries only, with the exact sum of their prices as total. The bundle sku
  is never matched against indicators: it qualifies for no transcript, and the scoring
  loop skips it whatever the indicator table holds.
\<close>

theorem bundle_never_mixed:
  "((fst (recommend_services ts) = [bundle_entry]
       \<and> snd (recommend_services ts) = price bundle_entry)
     \<or> ((\<forall>s \<in> set (fst (recommend_services ts)). sku s \<noteq> ''CGO-BUNDLE'')
       \<and> snd (recommend_services ts) = sum_list (map price (fst (recommend_services ts)))))
   \<and> ''CGO-BUNDLE'' \<notin> recommend_from_transcript t
   \<and> ''CGO-BUNDLE'' \<notin> fst ` set (score_items lowered items [])"
proof (intro conjI)
  have nb: "''CGO-BUNDLE'' \<notin> all_skus ts"
    using all_skus_keys [of ts] bundle_not_key by auto
  show "(fst (recommend_services ts) = [bundle_entry]
       \<and> snd (recommend_services ts) = price bundle_entry)
     \<or> ((\<forall>s \<in> set (fst (recommend_services ts)). sku s \<noteq> ''CGO-BUNDLE'')
       \<and> snd (recommend_services ts) = sum_list (map price (fst (recommend_services ts))))"
  proof (cases "4 \<le> card (all_skus ts)")
    case True
    then show ?thesis
      by (simp add: recommend_services_def Let_def bundle_filter bundle_entry_def)
  next
    case False
    with nb show ?thesis
      by (auto simp: recommend_services_def Let_def)
  qed
  show "''CGO-BUNDLE'' \<notin> recommend_from_transcript t"
    using recommend_from_transcript_keys [of t] bundle_not_key by auto
  show "''CGO-BUNDLE'' \<notin> fst ` set (score_items lowered items [])"
    unfolding score_items_keys by simp
qed

theorem bundle_never_mixed_witness:
  "''CGO-BUNDLE'' \<notin> sku ` set (fst (recommend_services [''CRM and our pipeline'', ''messy data'']))
   \<and> snd (recommend_services [''CRM and our pipeline'', ''messy data'']) = 5000
   \<and> fst (recommend_services [''crm spam abm clay'']) = [bundle_entry]"
proof -
  have a: "recommend_services [''CRM and our pipeline'', ''messy data''] =
      ([SERVICES ! 1, SERVICES ! 2], 5000)"
    by (simp add: recommend_services_def two_skus_example SERVICES_def)
  have b: "recommend_services [''crm spam abm clay''] = ([bundle_entry], 12000)"
    by (simp add: recommend_services_def four_skus_example bundle_filter)
  show ?thesis
    using bundle_never_mixed [of "[''CRM and our pipeline'', ''messy data'']" "[]" "[]" "[]"]
      bundle_never_mixed [of "[''crm spam abm clay'']" "[]" "[]" "[]"]
    by (simp add: a b SERVICES_def bundle_entry_def)
qed

section \<open>The example inputs, evaluated\<close>

lemma example_parse: "parse_deal_url example_url = Some (''21656838'', ''12345'')"
  by (simp add: example_url_def match_here_def is_digit_def)

lemma example_run_phases:
  "run_workflow example_config w example_url = run_phases w ''21656838'' ''12345''"
  by (simp add: run_workflow_def example_config_def falsy_def example_parse)

lemma example_world_fields:
  "get_deal example_world deal_id =
     Inr \<lparr>dealname = Some ''Acme renewal'', company_results = [Some ''c1''],
          contact_results = [Some ''p1'', Some ''p2'']\<rparr>"
  "get_company example_world cid = Inr acme"
  "get_contact example_world cid = (if cid = ''p2'' then Inl (HTTPError ''404'') else Inr ann)"
  "get_meeting_associations example_world deal_id = Inr [Some ''m1'', Some ''m2'']"
  "get_meeting example_world meeting_id =
     Inr \<lparr>properties = Some [(''hs_internal_meeting_notes'',
       if meeting_id = ''m1'' then notes_m1 else notes_m2)]\<rparr>"
  "get_products example_world =
     Inr [\<lparr>hs_sku = Some ''CGO-CRM'', product_id = Some ''901''\<rparr>,
          \<lparr>hs_sku = Some ''CGO-SALESOPS'', product_id = Some ''902''\<rparr>,
          \<lparr>hs_sku = Some ''CGO-MKTOPS'', product_id = Some ''903''\<rparr>]"
  "post_quote example_world q = Inr (Some ''777'')"
  "post_line_item example_world li = Inr (Some (''li'' @ hs_product_id li))"
  "put_association example_world quote_id line_item_id = Inr ()"
  "call_claude example_world request = Inr ''<h3>Plan</h3>''"
  "expiration_date example_world = ''2026-12-04''"
  by (simp_all add: example_world_def)

lemma crm_partly_down_fields:
  "get_deal crm_partly_down = get_deal example_world"
  "get_company crm_partly_down cid = (if cid = ''c1'' then Inl (HTTPError ''404'') else Inr acme)"
  "get_contact crm_partly_down = get_contact example_world"
  "get_meeting_associations crm_partly_down deal_id = Inl (HTTPError ''500'')"
  by (simp_all add: crm_partly_down_def)

lemma crm_partly_down_run:
  "run_workflow example_config crm_partly_down example_url =
     (Inr (Failed NoFathomSummaries),
      [GetDeal ''12345'', GetCompany ''c1'', GetContact ''p1'', GetContact ''p2'',
       GetMeetingAssociations ''12345''])"
  by (simp add: example_run_phases run_phases_def crm_partly_down_fields example_world_fields
      fetch_deal_def io_simps ids_of_def fetch_companies_def fetch_contacts_def
      fetch_fathom_transcripts_def)

lemma notes_are_summaries:
  "is_fathom_summary notes_m1" "is_fathom_summary notes_m2" "is_fathom_summary quiet_notes"
  by (simp_all add: is_fathom_summary_def notes_m1_def notes_m2_def quiet_notes_def)

lemma example_transcripts:
  assumes "get_meeting_associations w ''12345'' = Inr [Some ''m1'', Some ''m2'']"
    and "get_meeting w ''m1'' = Inr \<lparr>properties = Some [(''hs_internal_meeting_notes'', n1)]\<rparr>"
    and "get_meeting w ''m2'' = Inr \<lparr>properties = Some [(''hs_internal_meeting_notes'', n2)]\<rparr>"
    and "is_fathom_summary n1" and "is_fathom_summary n2"
  shows "fetch_fathom_transcripts w ''12345'' =
      (Inr [n1, n2], [GetMeetingAssociations ''12345'', GetMeeting ''m1'', GetMeeting ''m2''])"
  using assms by (simp add: fetch_fathom_transcripts_def io_simps meeting_notes_def)

lemma acme_deal_run:
  assumes "get_deal w ''12345'' = get_deal example_world ''12345''"
    and "get_company w ''c1'' = Inr acme"
    and "get_contact w = get_contact example_world"
    and "fetch_fathom_transcripts w ''12345'' = (Inr ts, tr)"
    and "ts \<noteq> []"
  shows "fst (run_phases w p ''12345'') = fst (propose w p ''12345'' ''Acme'' ts)"
  using assms
  by (simp add: run_phases_def example_world_fields fetch_deal_def io_simps ids_of_def
      fetch_companies_def fetch_contacts_def company_display_name_def acme_def)

lemma notes_hits:
  "sku_hits notes_m1 ''CGO-CRM'' = 2" "sku_hits notes_m1 ''CGO-SALESOPS'' = 2"
  "sku_hits notes_m1 ''CGO-MKTOPS'' = 0" "sku_hits notes_m1 ''CGO-DATA'' = 0"
  "sku_hits notes_m1 ''CGO-EMAIL'' = 0" "sku_hits notes_m1 ''CGO-LINKEDIN'' = 0"
  "sku_hits notes_m2 ''CGO-CRM'' = 2" "sku_hits notes_m2 ''CGO-SALESOPS'' = 2"
  "sku_hits notes_m2 ''CGO-MKTOPS'' = 0" "sku_hits notes_m2 ''CGO-DATA'' = 0"
  "sku_hits notes_m2 ''CGO-EMAIL'' = 0" "sku_hits notes_m2 ''CGO-LINKEDIN'' = 0"
  by (simp_all add: sku_hits_def hit_count_def lower_def lower_char_def PAIN_POINT_MAP_def
      notes_m1_def notes_m2_def)

lemma quiet_hits:
  "recommend_from_transcript quiet_notes = {}"
  by (simp add: recommend_from_transcript_def lower_def lower_char_def
      PAIN_POINT_MAP_def indicator_score_def quiet_notes_def)

lemma example_all_skus:
  "all_skus [notes_m1, notes_m2] = {''CGO-CRM'', ''CGO-SALESOPS''}"
  by (simp add: all_skus_def recommend_from_transcript_def lower_def lower_char_def
      PAIN_POINT_MAP_def indicator_score_def notes_m1_def notes_m2_def insert_commute)

lemma example_selection:
  "select_services [notes_m1, notes_m2] = ([SERVICES ! 1, SERVICES ! 2], 5000)"
  by (simp add: select_services_def recommend_services_def example_all_skus SERVICES_def)

lemma example_narrative:
  assumes "call_claude w = call_claude example_world"
  shows "fst (generate_executive_summary w ts c svcs tot) = Inr ''<h3>Plan</h3>''"
    "fst (generate_90_day_preview w ts c) = Inr ''<h3>Plan</h3>''"
  using assms
  by (simp_all add: generate_executive_summary_def generate_90_day_preview_def Let_def
      perform_def example_world_fields)

lemma acme_deal_outcome:
  assumes "get_deal w = get_deal example_world"
    and "get_company w = get_company example_world"
    and "get_contact w = get_contact example_world"
    and "call_claude w = call_claude example_world"
    and "fetch_fathom_transcripts w ''12345'' = (Inr ts, tr)"
    and "ts \<noteq> []"
    and "select_services ts = (svcs, tot)"
  shows "fst (run_workflow example_config w example_url) =
      (case fst (create_quote_and_line_items w ''21656838'' ''12345'' ''Acme'' svcs
                   ''<h3>Plan</h3>'' ''<h3>Plan</h3>'') of
         Inl e \<Rightarrow> (case e of HTTPError msg \<Rightarrow> Inr (Failed (QuoteCreationError msg)) | _ \<Rightarrow> Inl e)
       | Inr quote_url \<Rightarrow> Inr (Succeeded quote_url ''Acme'' tot (map name svcs)))"
proof -
  have "fst (run_workflow example_config w example_url) =
      fst (propose w ''21656838'' ''12345'' ''Acme'' ts)"
    unfolding example_run_phases
    by (rule acme_deal_run) (simp_all add: assms example_world_fields)
  also have "\<dots> =
      (case fst (create_quote_and_line_items w ''21656838'' ''12345'' ''Acme'' svcs
                   ''<h3>Plan</h3>'' ''<h3>Plan</h3>'') of
         Inl e \<Rightarrow> (case e of HTTPError msg \<Rightarrow> Inr (Failed (QuoteCreationError msg)) | _ \<Rightarrow> Inl e)
       | Inr quote_url \<Rightarrow> Inr (Succeeded quote_url ''Acme'' tot (map name svcs)))"
    by (simp add: propose_def assms(7) fst_try_or_return fst_and_then
        example_narrative [OF assms(4)] returns_def split: sum.splits exn.splits)
  finally show ?thesis .
qed

lemma products_down_fields:
  "get_deal products_down = get_deal example_world"
  "get_company products_down = get_company example_world"
  "get_contact products_down = get_contact example_world"
  "get_meeting_associations products_down = get_meeting_associations example_world"
  "get_meeting products_down = get_meeting example_world"
  "call_claude products_down = call_claude example_world"
  "get_products products_down = Inl (HTTPError ''503'')"
  by (simp_all add: products_down_def)

lemma line_items_rejected_fields:
  "get_deal line_items_rejected = get_deal example_world"
  "get_company line_items_rejected = get_company example_world"
  "get_contact line_items_rejected = get_contact example_world"
  "get_meeting_associations line_items_rejected = get_meeting_associations example_world"
  "get_meeting line_items_rejected = get_meeting example_world"
  "call_claude line_items_rejected = call_claude example_world"
  "get_products line_items_rejected = get_products example_world"
  "post_quote line_items_rejected = post_quote example_world"
  "expiration_date line_items_rejected = expiration_date example_world"
  "post_line_item line_items_rejected li = Inl (HTTPError ''400'')"
  by (simp_all add: line_items_rejected_def)

lemma quiet_world_fields:
  "get_deal quiet_world = get_deal example_world"
  "get_company quiet_world = get_company example_world"
  "get_contact quiet_world = get_contact example_world"
  "get_meeting_associations quiet_world = get_meeting_associations example_world"
  "call_claude quiet_world = call_claude example_world"
  "get_products quiet_world = get_products example_world"
  "post_quote quiet_world = post_quote example_world"
  "post_line_item quiet_world = post_line_item example_world"
  "put_association quiet_world = put_association example_world"
  "expiration_date quiet_world = expiration_date example_world"
  "get_meeting quiet_world meeting_id =
     Inr \<lparr>properties = Some [(''hs_internal_meeting_notes'', quiet_notes)]\<rparr>"
  by (simp_all add: quiet_world_def)

lemma example_catalog:
  "get_products w = get_products example_world \<Longrightarrow>
   fst (fetch_products w) =
     Inr [(''CGO-CRM'', ''901''), (''CGO-SALESOPS'', ''902''), (''CGO-MKTOPS'', ''903'')]"
  by (simp add: fetch_products_def fst_and_then perform_def example_world_fields returns_def)

lemma example_transcripts_of:
  assumes "get_meeting_associations w = get_meeting_associations example_world"
    and "get_meeting w = get_meeting example_world"
  shows "fetch_fathom_transcripts w ''12345'' =
      (Inr [notes_m1, notes_m2],
       [GetMeetingAssociations ''12345'', GetMeeting ''m1'', GetMeeting ''m2''])"
  by (rule example_transcripts)
    (simp_all add: assms example_world_fields notes_are_summaries)

lemma quiet_transcripts:
  "fetch_fathom_transcripts quiet_world ''12345'' =
      (Inr [quiet_notes, quiet_notes],
       [GetMeetingAssociations ''12345'', GetMeeting ''m1'', GetMeeting ''m2''])"
  by (rule example_transcripts)
    (simp_all add: quiet_world_fields example_world_fields notes_are_summaries)

lemma quiet_all_skus: "all_skus [quiet_notes, quiet_notes] = {}"
  by (simp add: all_skus_Union quiet_hits)

lemma products_down_quote:
  "fst (create_quote_and_line_items products_down p d c svcs es pv) = Inl (HTTPError ''503'')"
  by (simp add: create_quote_http_error products_down_fields)

lemma line_items_rejected_quote:
  "fst (create_quote_and_line_items line_items_rejected p d c [SERVICES ! 1, SERVICES ! 2] es pv) =
     Inl (HTTPError ''400'')"
  by (simp add: create_quote_and_line_items_def fst_and_then
      example_catalog [OF line_items_rejected_fields(7)] line_items_rejected_fields
      example_world_fields io_simps Let_def SERVICES_def)

lemma example_world_quote:
  "fst (create_quote_and_line_items example_world p d c [SERVICES ! 1, SERVICES ! 2] es pv) =
     Inr (quote_url_of p ''777'')"
  by (simp add: create_quote_and_line_items_def fst_and_then
      example_catalog [OF refl] example_world_fields io_simps Let_def SERVICES_def)

lemma quiet_world_quote:
  "fst (create_quote_and_line_items quiet_world p d c [SERVICES ! 0] es pv) =
     Inr (quote_url_of p ''777'')"
  by (simp add: create_quote_and_line_items_def fst_and_then
      example_catalog [OF quiet_world_fields(6)] quiet_world_fields
      example_world_fields io_simps Let_def SERVICES_def)

lemma example_names:
  "map name [SERVICES ! 1, SERVICES ! 2] = [''Sales Operations Consulting'', ''CRM Management'']"
  "map name [SERVICES ! 0] = [''Marketing Operations Consulting'']"
  by (simp_all add: SERVICES_def)

lemma products_down_run:
  "fst (run_workflow example_config products_down example_url) =
     Inr (Failed (QuoteCreationError ''503''))"
proof -
  note f = products_down_fields
  have "fst (run_workflow example_config products_down example_url) =
      (case fst (create_quote_and_line_items products_down ''21656838'' ''12345'' ''Acme''
                   [SERVICES ! 1, SERVICES ! 2] ''<h3>Plan</h3>'' ''<h3>Plan</h3>'') of
         Inl e \<Rightarrow> (case e of HTTPError msg \<Rightarrow> Inr (Failed (QuoteCreationError msg)) | _ \<Rightarrow> Inl e)
       | Inr quote_url \<Rightarrow>
           Inr (Succeeded quote_url ''Acme'' 5000 (map name [SERVICES ! 1, SERVICES ! 2])))"
    by (rule acme_deal_outcome [OF f(1) f(2) f(3) f(6) example_transcripts_of [OF f(4) f(5)] _
          example_selection]) simp
  then show ?thesis
    by (simp only: products_down_quote sum.case exn.case)
qed

lemma line_items_rejected_run:
  "fst (run_workflow example_config line_items_rejected example_url) =
     Inr (Failed (QuoteCreationError ''400''))"
proof -
  note f = line_items_rejected_fields
  have "fst (run_workflow example_config line_items_rejected example_url) =
      (case fst (create_quote_and_line_items line_items_rejected ''21656838'' ''12345'' ''Acme''
                   [SERVICES ! 1, SERVICES ! 2] ''<h3>Plan</h3>'' ''<h3>Plan</h3>'') of
         Inl e \<Rightarrow> (case e of HTTPError msg \<Rightarrow> Inr (Failed (QuoteCreationError msg)) | _ \<Rightarrow> Inl e)
       | Inr quote_url \<Rightarrow>
           Inr (Succeeded quote_url ''Acme'' 5000 (map name [SERVICES ! 1, SERVICES ! 2])))"
    by (rule acme_deal_outcome [OF f(1) f(2) f(3) f(6) example_transcripts_of [OF f(4) f(5)] _
          example_selection]) simp
  then show ?thesis
    by (simp only: line_items_rejected_quote sum.case exn.case)
qed

lemma example_world_run:
  "fst (run_workflow example_config example_world example_url) =
     Inr (Succeeded (quote_url_of ''21656838'' ''777'') ''Acme'' 5000
            [''Sales Operations Consulting'', ''CRM Management''])"
proof -
  have "fst (run_workflow example_config example_world example_url) =
      (case fst (create_quote_and_line_items example_world ''21656838'' ''12345'' ''Acme''
                   [SERVICES ! 1, SERVICES ! 2] ''<h3>Plan</h3>'' ''<h3>Plan</h3>'') of
         Inl e \<Rightarrow> (case e of HTTPError msg \<Rightarrow> Inr (Failed (QuoteCreationError msg)) | _ \<Rightarrow> Inl e)
       | Inr quote_url \<Rightarrow>
           Inr (Succeeded quote_url ''Acme'' 5000 (map name [SERVICES ! 1, SERVICES ! 2])))"
    by (rule acme_deal_outcome [OF refl refl refl refl example_transcripts_of [OF refl refl] _
          example_selection]) simp
  then show ?thesis
    by (simp only: example_world_quote example_names sum.case)
qed

lemma quiet_world_run:
  "fst (run_workflow example_config quiet_world example_url) =
     Inr (Succeeded (quote_url_of ''21656838'' ''777'') ''Acme'' 3000
            [''Marketing Operations Consulting''])"
proof -
  note f = quiet_world_fields
  have "fst (run_workflow example_config quiet_world example_url) =
      (case fst (create_quote_and_line_items quiet_world ''21656838'' ''12345'' ''Acme''
                   [SERVICES ! 0] ''<h3>Plan</h3>'' ''<h3>Plan</h3>'') of
         Inl e \<Rightarrow> (case e of HTTPError msg \<Rightarrow> Inr (Failed (QuoteCreationError msg)) | _ \<Rightarrow> Inl e)
       | Inr quote_url \<Rightarrow>
           Inr (Succeeded quote_url ''Acme'' 3000 (map name [SERVICES ! 0])))"
    by (rule acme_deal_outcome [OF f(1) f(2) f(3) f(5) quiet_transcripts _
          select_services_default [OF quiet_all_skus]]) simp
  then show ?thesis
    by (simp only: quiet_world_quote example_names sum.case)
qed

lemma acme_deal_trace:
  assumes "get_deal w = get_deal example_world"
    and "get_company w = get_company example_world"
    and "get_contact w = get_contact example_world"
    and "call_claude w = call_claude example_world"
    and "fetch_fathom_transcripts w ''12345'' = (Inr ts, tr)"
    and "ts \<noteq> []"
    and "select_services ts = (svcs, tot)"
  shows "set (snd (create_quote_and_line_items w ''21656838'' ''12345'' ''Acme'' svcs
                     ''<h3>Plan</h3>'' ''<h3>Plan</h3>''))
      \<subseteq> set (snd (run_workflow example_config w example_url))"
proof -
  have "snd (run_workflow example_config w example_url) =
      [GetDeal ''12345'', GetCompany ''c1'', GetContact ''p1'', GetContact ''p2''] @ tr @
      snd (propose w ''21656838'' ''12345'' ''Acme'' ts)"
    unfolding example_run_phases using assms(1,2,3,5,6)
    by (simp add: run_phases_def example_world_fields fetch_deal_def io_simps ids_of_def
        fetch_companies_def fetch_contacts_def company_display_name_def acme_def)
  moreover have "set (snd (create_quote_and_line_items w ''21656838'' ''12345'' ''Acme'' svcs
                     ''<h3>Plan</h3>'' ''<h3>Plan</h3>''))
      \<subseteq> set (snd (propose w ''21656838'' ''12345'' ''Acme'' ts))"
    by (auto simp: propose_def assms(7) snd_try_or_return fst_and_then snd_and_then
        example_narrative [OF assms(4)] returns_def split: sum.splits)
  ultimately show ?thesis
    by auto
qed

lemma quote_rejected_fields:
  "get_deal quote_rejected = get_deal example_world"
  "get_company quote_rejected = get_company example_world"
  "get_contact quote_rejected = get_contact example_world"
  "get_meeting_associations quote_rejected = get_meeting_associations example_world"
  "get_meeting quote_rejected = get_meeting example_world"
  "call_claude quote_rejected = call_claude example_world"
  "get_products quote_rejected = get_products example_world"
  "expiration_date quote_rejected = expiration_date example_world"
  "post_quote quote_rejected q = Inl (HTTPError ''422'')"
  by (simp_all add: quote_rejected_def)

lemma association_rejected_fields:
  "get_deal association_rejected = get_deal example_world"
  "get_company association_rejected = get_company example_world"
  "get_contact association_rejected = get_contact example_world"
  "get_meeting_associations association_rejected = get_meeting_associations example_world"
  "get_meeting association_rejected = get_meeting example_world"
  "call_claude association_rejected = call_claude example_world"
  "get_products association_rejected = get_products example_world"
  "post_quote association_rejected = post_quote example_world"
  "post_line_item association_rejected = post_line_item example_world"
  "expiration_date association_rejected = expiration_date example_world"
  "put_association association_rejected quote_id line_item_id = Inl (HTTPError ''409'')"
  by (simp_all add: association_rejected_def)

lemma example_quote_calls:
  "GetProducts \<in> set (snd (create_quote_and_line_items products_down ''21656838'' ''12345''
      ''Acme'' [SERVICES ! 1, SERVICES ! 2] ''<h3>Plan</h3>'' ''<h3>Plan</h3>''))"
  "PostQuote \<lparr>hs_title = ''CGO in a Box Proposal - Acme'', hs_expiration_date = ''2026-12-04'',
      hs_comments = ''<h3>Plan</h3>'', cgo_90_day_preview = ''<h3>Plan</h3>'',
      deal_association = ''12345''\<rparr>
    \<in> set (snd (create_quote_and_line_items quote_rejected ''21656838'' ''12345''
      ''Acme'' [SERVICES ! 1, SERVICES ! 2] ''<h3>Plan</h3>'' ''<h3>Plan</h3>''))"
  "PostLineItem (line_item_of ''902'' (SERVICES ! 1))
    \<in> set (snd (create_quote_and_line_items line_items_rejected ''21656838'' ''12345''
      ''Acme'' [SERVICES ! 1, SERVICES ! 2] ''<h3>Plan</h3>'' ''<h3>Plan</h3>''))"
  "PutAssociation ''777'' ''li902''
    \<in> set (snd (create_quote_and_line_items association_rejected ''21656838'' ''12345''
      ''Acme'' [SERVICES ! 1, SERVICES ! 2] ''<h3>Plan</h3>'' ''<h3>Plan</h3>''))"
proof -
  show "GetProducts \<in> set (snd (create_quote_and_line_items products_down ''21656838'' ''12345''
      ''Acme'' [SERVICES ! 1, SERVICES ! 2] ''<h3>Plan</h3>'' ''<h3>Plan</h3>''))"
    by (simp add: create_quote_and_line_items_def snd_and_then fetch_products_trace
        split: sum.splits)
  show "PostQuote \<lparr>hs_title = ''CGO in a Box Proposal - Acme'', hs_expiration_date = ''2026-12-04'',
      hs_comments = ''<h3>Plan</h3>'', cgo_90_day_preview = ''<h3>Plan</h3>'',
      deal_association = ''12345''\<rparr>
    \<in> set (snd (create_quote_and_line_items quote_rejected ''21656838'' ''12345''
      ''Acme'' [SERVICES ! 1, SERVICES ! 2] ''<h3>Plan</h3>'' ''<h3>Plan</h3>''))"
    by (simp add: create_quote_and_line_items_def snd_and_then fetch_products_trace
        example_catalog [OF quote_rejected_fields(7)] quote_rejected_fields
        example_world_fields io_simps Let_def)
  show "PostLineItem (line_item_of ''902'' (SERVICES ! 1))
    \<in> set (snd (create_quote_and_line_items line_items_rejected ''21656838'' ''12345''
      ''Acme'' [SERVICES ! 1, SERVICES ! 2] ''<h3>Plan</h3>'' ''<h3>Plan</h3>''))"
    by (simp add: create_quote_and_line_items_def snd_and_then fetch_products_trace
        example_catalog [OF line_items_rejected_fields(7)] line_items_rejected_fields
        example_world_fields io_simps Let_def SERVICES_def)
  show "PutAssociation ''777'' ''li902''
    \<in> set (snd (create_quote_and_line_items association_rejected ''21656838'' ''12345''
      ''Acme'' [SERVICES ! 1, SERVICES ! 2] ''<h3>Plan</h3>'' ''<h3>Plan</h3>''))"
    by (simp add: create_quote_and_line_items_def snd_and_then fetch_products_trace
        example_catalog [OF association_rejected_fields(7)] association_rejected_fields
        example_world_fields io_simps Let_def SERVICES_def line_item_of_def)
qed

lemma example_run_quote_calls:
  "GetProducts \<in> set (snd (run_workflow example_config products_down example_url))"
  "PostQuote \<lparr>hs_title = ''CGO in a Box Proposal - Acme'', hs_expiration_date = ''2026-12-04'',
      hs_comments = ''<h3>Plan</h3>'', cgo_90_day_preview = ''<h3>Plan</h3>'',
      deal_association = ''12345''\<rparr>
    \<in> set (snd (run_workflow example_config quote_rejected example_url))"
  "PostLineItem (line_item_of ''902'' (SERVICES ! 1))
    \<in> set (snd (run_workflow example_config line_items_rejected example_url))"
  "PutAssociation ''777'' ''li902''
    \<in> set (snd (run_workflow example_config association_rejected example_url))"
proof -
  note a = products_down_fields
  show "GetProducts \<in> set (snd (run_workflow example_config products_down example_url))"
    by (rule subsetD [OF acme_deal_trace [OF a(1) a(2) a(3) a(6)
            example_transcripts_of [OF a(4) a(5)] _ example_selection] example_quote_calls(1)])
      simp
  note b = quote_rejected_fields
  show "PostQuote \<lparr>hs_title = ''CGO in a Box Proposal - Acme'', hs_expiration_date = ''2026-12-04'',
      hs_comments = ''<h3>Plan</h3>'', cgo_90_day_preview = ''<h3>Plan</h3>'',
      deal_association = ''12345''\<rparr>
    \<in> set (snd (run_workflow example_config quote_rejected example_url))"
    by (rule subsetD [OF acme_deal_trace [OF b(1) b(2) b(3) b(6)
            example_transcripts_of [OF b(4) b(5)] _ example_selection] example_quote_calls(2)])
      simp
  note c = line_items_rejected_fields
  show "PostLineItem (line_item_of ''902'' (SERVICES ! 1))
    \<in> set (snd (run_workflow example_config line_items_rejected example_url))"
    by (rule subsetD [OF acme_deal_trace [OF c(1) c(2) c(3) c(6)
            example_transcripts_of [OF c(4) c(5)] _ example_selection] example_quote_calls(3)])
      simp
  note d = association_rejected_fields
  show "PutAssociation ''777'' ''li902''
    \<in> set (snd (run_workflow example_config association_rejected example_url))"
    by (rule subsetD [OF acme_deal_trace [OF d(1) d(2) d(3) d(6)
            example_transcripts_of [OF d(4) d(5)] _ example_selection] example_quote_calls(4)])
      simp
qed

subsection \<open>A successful run, end to end\<close>

lemma run_success_proposal:
  assumes "fst (run_workflow cfg w url) = Inr (Succeeded u c tot ns)"
    and "parse_deal_url url = Some (p, d)"
    and "fst (fetch_fathom_transcripts w d) = Inr ts"
  shows "HUBSPOT_PORTAL_ID cfg = Some p \<and> ts \<noteq> [] \<and> tot = snd (select_services ts)
     \<and> ns = map name (fst (select_services ts))
     \<and> (\<exists>es pv. fst (create_quote_and_line_items w p d c (fst (select_services ts)) es pv) = Inr u)"
proof -
  from run_workflow_success [OF assms(1)] assms(2)
  have p: "HUBSPOT_PORTAL_ID cfg = Some p"
    and r: "fst (run_phases w p d) = Inr (Succeeded u c tot ns)"
    by auto
  from run_phases_success [OF r] assms(3) obtain c' where ts: "ts \<noteq> []"
    and pr: "fst (propose w p d c' ts) = Inr (Succeeded u c tot ns)"
    by auto
  from propose_success [OF pr] p ts show ?thesis
    by auto
qed

section \<open>Tolerant fetchers\<close>

text \<open>
  HTTP errors are tolerated. For every list of N contact ids (and likewise for company
  ids) of which exactly one request raises \<^verbatim>\<open>requests.HTTPError\<close> while every other
  request returns its record, the fetcher returns the N - 1 other records in order, the
  failing one omitted, and itself returns normally; all N requests are made.
\<close>


theorem tolerant_fetch_omits_one_failure:
  "(map (get_contact w) ids1 = map Inr pre \<and> get_contact w cid = Inl (HTTPError msg)
      \<and> map (get_contact w) ids2 = map Inr post \<longrightarrow>
      fetch_contacts w (ids1 @ cid # ids2) =
        (Inr (pre @ post), map GetContact (ids1 @ cid # ids2))
      \<and> length (pre @ post) = length (ids1 @ cid # ids2) - 1)
   \<and> (map (get_company w) cids1 = map Inr cpre \<and> get_company w ccid = Inl (HTTPError cmsg)
      \<and> map (get_company w) cids2 = map Inr cpost \<longrightarrow>
      fetch_companies w (cids1 @ ccid # cids2) =
        (Inr (cpre @ cpost), map GetCompany (cids1 @ ccid # cids2))
      \<and> length (cpre @ cpost) = length (cids1 @ ccid # cids2) - 1)"
proof (intro conjI impI)
  assume a: "map (get_contact w) ids1 = map Inr pre \<and> get_contact w cid = Inl (HTTPError msg)
      \<and> map (get_contact w) ids2 = map Inr post"
  then show "fetch_contacts w (ids1 @ cid # ids2) =
        (Inr (pre @ post), map GetContact (ids1 @ cid # ids2))"
    using fetch_contacts_loop_one_failure [of w ids1 pre cid msg ids2 post "[]"]
    by (simp add: fetch_contacts_def)
  from a have "length ids1 = length pre" "length ids2 = length post"
    by (metis length_map)+
  then show "length (pre @ post) = length (ids1 @ cid # ids2) - 1" by simp
next
  assume a: "map (get_company w) cids1 = map Inr cpre \<and> get_company w ccid = Inl (HTTPError cmsg)
      \<and> map (get_company w) cids2 = map Inr cpost"
  then show "fetch_companies w (cids1 @ ccid # cids2) =
        (Inr (cpre @ cpost), map GetCompany (cids1 @ ccid # cids2))"
    using fetch_companies_loop_one_failure [of w cids1 cpre ccid cmsg cids2 cpost "[]"]
    by (simp add: fetch_companies_def)
  from a have "length cids1 = length cpre" "length cids2 = length cpost"
    by (metis length_map)+
  then show "length (cpre @ cpost) = length (cids1 @ ccid # cids2) - 1" by simp
qed

theorem tolerant_fetch_omits_one_failure_witness:
  "fetch_contacts crm_partly_down [''p1'', ''p2'', ''p3''] =
     (Inr [ann, ann], [GetContact ''p1'', GetContact ''p2'', GetContact ''p3''])
   \<and> fetch_companies crm_partly_down [''c1'', ''c2''] =
     (Inr [acme], [GetCompany ''c1'', GetCompany ''c2''])"
  using tolerant_fetch_omits_one_failure [of crm_partly_down
      "[''p1'']" "[ann]" "''p2''" "''404''" "[''p3'']" "[ann]"
      "[]" "[]" "''c1''" "''404''" "[''c2'']" "[acme]"]
  by (simp add: crm_partly_down_fields example_world_fields)

subsection \<open>Failures of one record that are not HTTP errors (claim C8)\<close>

text \<open>
  Claim C8 says that when exactly one of N contact (or company) ids fails to fetch, the
  fetcher returns the other N - 1 records and itself succeeds. \<^verbatim>\<open>fetch_contacts\<close> and
  \<^verbatim>\<open>fetch_companies\<close> catch \<^verbatim>\<open>requests.HTTPError\<close> only: when the request for one id
  ends in a connection failure or a timeout, the exception leaves the fetcher, no list is
  returned, the later ids are not requested, and the exception leaves \<^verbatim>\<open>run_workflow\<close>
  as well.
\<close>

theorem non_http_failure_escapes_fetchers:
  "fetch_contacts contact_unreachable [''p1'', ''p2'', ''p3''] =
     (Inl ConnectionError, [GetContact ''p1'', GetContact ''p2''])
   \<and> fetch_companies company_times_out [''c1'', ''c2''] = (Inl Timeout, [GetCompany ''c1''])
   \<and> run_workflow example_config contact_unreachable example_url =
     (Inl ConnectionError,
      [GetDeal ''12345'', GetCompany ''c1'', GetContact ''p1'', GetContact ''p2''])"
proof -
  have f: "get_deal contact_unreachable = get_deal example_world"
    "get_company contact_unreachable = get_company example_world"
    "get_contact contact_unreachable cid =
       (if cid = ''p2'' then Inl ConnectionError else Inr ann)"
    "get_company company_times_out cid = (if cid = ''c1'' then Inl Timeout else Inr acme)"
    for cid
    by (simp_all add: contact_unreachable_def company_times_out_def)
  have a: "fetch_contacts contact_unreachable [''p1'', ''p2'', ''p3''] =
     (Inl ConnectionError, [GetContact ''p1'', GetContact ''p2''])"
    by (simp add: fetch_contacts_def f io_simps try_except_other)
  have b: "fetch_companies company_times_out [''c1'', ''c2''] = (Inl Timeout, [GetCompany ''c1''])"
    by (simp add: fetch_companies_def f io_simps try_except_other)
  have c: "run_workflow example_config contact_unreachable example_url =
     (Inl ConnectionError,
      [GetDeal ''12345'', GetCompany ''c1'', GetContact ''p1'', GetContact ''p2''])"
    by (simp add: example_run_phases run_phases_def f(1,2,3) example_world_fields
        fetch_deal_def io_simps try_except_other ids_of_def fetch_companies_def
        fetch_contacts_def)
  from a b c show ?thesis
    by (intro conjI)
qed

section \<open>No transcripts\<close>

text \<open>
  For every run on a reference that names deal \<open>d\<close>: if the run gets to list the deal's
  meeting associations and the transcript fetch yields zero transcripts, the workflow
  ends with the failure "No Fathom meeting summaries found", which is the failed
  precondition of the taxonomy and not an upstream error, whatever the company and
  contact fetches returned. A listing that fails with an HTTP error is such a case: it
  yields the empty transcript list.
\<close>


theorem zero_transcripts_precondition_failed:
  "(parse_deal_url url = Some (p, d)
      \<and> GetMeetingAssociations d \<in> set (snd (run_workflow cfg w url))
      \<and> fst (fetch_fathom_transcripts w d) = Inr [] \<longrightarrow>
      fst (run_workflow cfg w url) = Inr (Failed NoFathomSummaries)
      \<and> classification NoFathomSummaries = PreconditionFailed)
   \<and> (get_meeting_associations w d = Inl (HTTPError msg) \<longrightarrow>
      fetch_fathom_transcripts w d = (Inr [], [GetMeetingAssociations d]))"
proof (intro conjI impI)
  assume a: "parse_deal_url url = Some (p, d)
      \<and> GetMeetingAssociations d \<in> set (snd (run_workflow cfg w url))
      \<and> fst (fetch_fathom_transcripts w d) = Inr []"
  then have "snd (run_workflow cfg w url) \<noteq> []" by auto
  with a have run: "run_workflow cfg w url = run_phases w p d"
    using run_workflow_reaches_phases [of url p d cfg w] by blast
  with a obtain c where "fst (run_phases w p d) =
      fst (and_then (fetch_fathom_transcripts w d)
         (\<lambda>transcripts. if transcripts = [] then returns (Failed NoFathomSummaries)
             else propose w p d c transcripts))"
    using run_phases_reaches_transcripts [of d w p] by auto
  with a run show "fst (run_workflow cfg w url) = Inr (Failed NoFathomSummaries)"
    by (simp add: fst_and_then returns_def)
next
  show "classification NoFathomSummaries = PreconditionFailed" by simp
next
  assume "get_meeting_associations w d = Inl (HTTPError msg)"
  then show "fetch_fathom_transcripts w d = (Inr [], [GetMeetingAssociations d])"
    by (simp add: fetch_fathom_transcripts_def perform_def try_or_return_http)
qed


theorem zero_transcripts_precondition_failed_witness:
  "fst (run_workflow example_config crm_partly_down example_url) = Inr (Failed NoFathomSummaries)
   \<and> fetch_fathom_transcripts crm_partly_down ''12345'' =
       (Inr [], [GetMeetingAssociations ''12345''])"
  using zero_transcripts_precondition_failed [of example_url "''21656838''" "''12345''"
      example_config crm_partly_down "''500''"]
  by (simp add: example_parse crm_partly_down_run crm_partly_down_fields)

subsection \<open>A listing that times out (claim C4)\<close>

text \<open>
  Claim C4 says that a failed listing of the deal's meeting associations yields an empty
  transcript set, so that the run ends in the failed precondition. \<^verbatim>\<open>fetch_fathom_transcripts\<close>
  catches \<^verbatim>\<open>requests.HTTPError\<close> only: when the listing times out, the exception
  leaves \<^verbatim>\<open>fetch_fathom_transcripts\<close> and \<^verbatim>\<open>run_workflow\<close>, and the run returns no
  result at all.
\<close>

theorem listing_timeout_escapes:
  "fetch_fathom_transcripts listing_times_out ''12345'' =
     (Inl Timeout, [GetMeetingAssociations ''12345''])
   \<and> run_workflow example_config listing_times_out example_url =
     (Inl Timeout,
      [GetDeal ''12345'', GetCompany ''c1'', GetContact ''p1'', GetContact ''p2'',
       GetMeetingAssociations ''12345''])"
proof -
  have f: "get_deal listing_times_out = get_deal example_world"
    "get_company listing_times_out = get_company example_world"
    "get_contact listing_times_out = get_contact example_world"
    "get_meeting_associations listing_times_out deal_id = Inl Timeout" for deal_id
    by (simp_all add: listing_times_out_def)
  have a: "fetch_fathom_transcripts listing_times_out ''12345'' =
     (Inl Timeout, [GetMeetingAssociations ''12345''])"
    by (simp add: fetch_fathom_transcripts_def perform_def f try_or_return_other)
  have "run_workflow example_config listing_times_out example_url =
     (Inl Timeout,
      [GetDeal ''12345'', GetCompany ''c1'', GetContact ''p1'', GetContact ''p2'',
       GetMeetingAssociations ''12345''])"
    by (simp add: example_run_phases run_phases_def f(1,2,3) example_world_fields
        fetch_deal_def io_simps ids_of_def fetch_companies_def fetch_contacts_def
        company_display_name_def acme_def a)
  with a show ?thesis
    by (rule conjI)
qed

section \<open>Validation before any network call (claim C5)\<close>

text \<open>
  Claim C5. For every reference string that has no parseable deal path, or whose parsed
  tenant id differs from the configured one, the run ends in a failure without making
  any network call, and never in an upstream error. With the three credentials
  configured, which the run checks first, that failure is a validation error; a run
  with a credential missing ends in the configuration error of that check.
\<close>

theorem validation_failure_before_any_call:
  "parse_deal_url url = None
     \<or> (\<exists>p d. parse_deal_url url = Some (p, d) \<and> HUBSPOT_PORTAL_ID cfg \<noteq> Some p) \<longrightarrow>
   (\<exists>f. run_workflow cfg w url = (Inr (Failed f), [])
      \<and> classification f \<noteq> UpstreamError
      \<and> (\<not> falsy (HUBSPOT_API_KEY cfg) \<and> \<not> falsy (HUBSPOT_PORTAL_ID cfg)
           \<and> \<not> falsy (ANTHROPIC_API_KEY cfg) \<longrightarrow>
         classification f = ValidationError)
      \<and> (falsy (HUBSPOT_API_KEY cfg) \<or> falsy (HUBSPOT_PORTAL_ID cfg)
           \<or> falsy (ANTHROPIC_API_KEY cfg) \<longrightarrow>
         classification f = ConfigurationError))"
  by (auto simp: run_workflow_def returns_def falsy_def split: option.splits)

theorem validation_failure_before_any_call_witness:
  "run_workflow example_config example_world ''please quote deal 12345'' =
     (Inr (Failed InvalidDealUrl), [])
   \<and> run_workflow example_config example_world
        ''https://app.hubspot.com/contacts/999/record/0-3/12345'' =
     (Inr (Failed (PortalMismatch ''999'' ''21656838'')), [])
   \<and> run_workflow (example_config\<lparr>HUBSPOT_API_KEY := None\<rparr>) example_world
        ''please quote deal 12345'' =
     (Inr (Failed MissingHubspotConfig), [])"
proof -
  have u: "parse_deal_url ''please quote deal 12345'' = None"
    by (simp add: match_here_def)
  have m: "parse_deal_url ''https://app.hubspot.com/contacts/999/record/0-3/12345'' =
      Some (''999'', ''12345'')"
    by (simp add: match_here_def is_digit_def)
  have r1: "run_workflow example_config example_world ''please quote deal 12345'' =
      (Inr (Failed InvalidDealUrl), [])"
    unfolding run_workflow_def u by (simp add: example_config_def falsy_def returns_def)
  have r2: "run_workflow example_config example_world
      ''https://app.hubspot.com/contacts/999/record/0-3/12345'' =
      (Inr (Failed (PortalMismatch ''999'' ''21656838'')), [])"
    unfolding run_workflow_def m by (simp add: example_config_def falsy_def returns_def)
  have r3: "run_workflow (example_config\<lparr>HUBSPOT_API_KEY := None\<rparr>) example_world
        ''please quote deal 12345'' = (Inr (Failed MissingHubspotConfig), [])"
    unfolding run_workflow_def u by (simp add: example_config_def falsy_def returns_def)
  show ?thesis
    using validation_failure_before_any_call [of "''please quote deal 12345''" example_config
        example_world]
      validation_failure_before_any_call
        [of "''https://app.hubspot.com/contacts/999/record/0-3/12345''" example_config
          example_world]
      validation_failure_before_any_call [of "''please quote deal 12345''"
        "example_config\<lparr>HUBSPOT_API_KEY := None\<rparr>" example_world]
    by (simp add: r1 r2 r3)
qed

section \<open>Exceptions that are not HTTP errors (claim C6)\<close>

text \<open>
  Claim C6 says that a run returns one result whatever the upstream services do, timeouts
  included. \<^verbatim>\<open>run_workflow\<close> catches \<^verbatim>\<open>requests.HTTPError\<close> only: when the deal read
  times out, the exception leaves \<^verbatim>\<open>run_workflow\<close> and no result is returned.
\<close>

theorem timeout_escapes_run_workflow:
  "run_workflow example_config deal_times_out example_url = (Inl Timeout, [GetDeal ''12345''])"
  by (simp add: example_run_phases run_phases_def fetch_deal_def perform_def
      deal_times_out_def try_or_return_def)

section \<open>Failures during quote assembly (claim C3)\<close>

text \<open>
  Claim C3, as stated, fails: \<^verbatim>\<open>create_quote_and_line_items\<close> wraps none of its calls in
  \<^verbatim>\<open>try\<close>, and \<^verbatim>\<open>run_workflow\<close> wraps the whole of it in one. When the product catalog
  lookup answers 503, or when creating a line item answers 400 after the quote has been
  written, the run ends in the quote creation failure, an upstream error.
\<close>

theorem quote_assembly_failure_counterexample:
  "fst (run_workflow example_config products_down example_url) =
     Inr (Failed (QuoteCreationError ''503''))
   \<and> fst (run_workflow example_config line_items_rejected example_url) =
     Inr (Failed (QuoteCreationError ''400''))
   \<and> classification (QuoteCreationError ''503'') = UpstreamError
   \<and> classification (QuoteCreationError ''400'') = UpstreamError"
  by (simp only: products_down_run line_items_rejected_run classification.simps simp_thms)

text \<open>
  Claim C3, amended. During quote assembly every HTTP failure is fatal to the run. An
  HTTP error answered to the product lookup, to the quote write, to the creation of a
  line item or to its association with the quote is the outcome of
  \<^verbatim>\<open>create_quote_and_line_items\<close>, and a run that makes such a request and gets an HTTP
  error for it ends in the quote creation failure, an upstream error. If
  \<^verbatim>\<open>create_quote_and_line_items\<close> returns a quote URL, then the product lookup succeeded,
  the quote was written, and for every selected service whose sku has a product id the
  line item was created and associated to the quote. The only item that is skipped is a
  service whose sku has no product id in the catalog.
\<close>

theorem quote_assembly_all_or_nothing:
  "(fst (create_quote_and_line_items w p d c svcs es pv) = Inr url \<longrightarrow>
      (\<exists>m qid. fst (fetch_products w) = Inr m
         \<and> post_quote w \<lparr>hs_title = ''CGO in a Box Proposal - '' @ c,
               hs_expiration_date = expiration_date w, hs_comments = es,
               cgo_90_day_preview = pv, deal_association = d\<rparr> = Inr (Some qid)
         \<and> url = quote_url_of p qid
         \<and> (\<forall>svc \<in> set svcs. \<forall>pid. map_of m (sku svc) = Some pid \<and> pid \<noteq> [] \<longrightarrow>
               (\<exists>li. post_line_item w (line_item_of pid svc) = Inr (Some li)
                  \<and> put_association w qid li = Inr ()))))
   \<and> (get_products w = Inl (HTTPError msg) \<longrightarrow>
        fst (create_quote_and_line_items w p d c svcs es pv) = Inl (HTTPError msg))
   \<and> (fst (fetch_products w) = Inr catalog
        \<and> post_quote w \<lparr>hs_title = ''CGO in a Box Proposal - '' @ c,
               hs_expiration_date = expiration_date w, hs_comments = es,
               cgo_90_day_preview = pv, deal_association = d\<rparr> = Inl (HTTPError msg) \<longrightarrow>
        fst (create_quote_and_line_items w p d c svcs es pv) = Inl (HTTPError msg))
   \<and> (PostLineItem li_data \<in> set (snd (create_quote_and_line_items w p d c svcs es pv))
        \<and> post_line_item w li_data = Inl (HTTPError msg) \<longrightarrow>
        fst (create_quote_and_line_items w p d c svcs es pv) = Inl (HTTPError msg))
   \<and> (PutAssociation q line_item_id \<in> set (snd (create_quote_and_line_items w p d c svcs es pv))
        \<and> put_association w q line_item_id = Inl (HTTPError msg) \<longrightarrow>
        fst (create_quote_and_line_items w p d c svcs es pv) = Inl (HTTPError msg))
   \<and> (select_services ts = (svcs, tot)
        \<and> fst (generate_executive_summary w ts c svcs tot) = Inr es
        \<and> fst (generate_90_day_preview w ts c) = Inr pv
        \<and> fst (create_quote_and_line_items w p d c svcs es pv) = Inl (HTTPError msg) \<longrightarrow>
      fst (propose w p d c ts) = Inr (Failed (QuoteCreationError msg))
        \<and> classification (QuoteCreationError msg) = UpstreamError)
   \<and> (GetProducts \<in> set (snd (run_workflow cfg w deal_url))
        \<and> get_products w = Inl (HTTPError msg) \<longrightarrow>
      fst (run_workflow cfg w deal_url) = Inr (Failed (QuoteCreationError msg)))
   \<and> (PostQuote quote_data' \<in> set (snd (run_workflow cfg w deal_url))
        \<and> post_quote w quote_data' = Inl (HTTPError msg) \<longrightarrow>
      fst (run_workflow cfg w deal_url) = Inr (Failed (QuoteCreationError msg)))
   \<and> (PostLineItem li_data \<in> set (snd (run_workflow cfg w deal_url))
        \<and> post_line_item w li_data = Inl (HTTPError msg) \<longrightarrow>
      fst (run_workflow cfg w deal_url) = Inr (Failed (QuoteCreationError msg)))
   \<and> (PutAssociation q line_item_id \<in> set (snd (run_workflow cfg w deal_url))
        \<and> put_association w q line_item_id = Inl (HTTPError msg) \<longrightarrow>
      fst (run_workflow cfg w deal_url) = Inr (Failed (QuoteCreationError msg)))
   \<and> (map_of sku_to_id (sku s) = None \<or> map_of sku_to_id (sku s) = Some [] \<longrightarrow>
        line_items_loop w sku_to_id quote_id (s # rest) = line_items_loop w sku_to_id quote_id rest)"
proof (intro conjI impI)
  assume ok: "fst (create_quote_and_line_items w p d c svcs es pv) = Inr url"
  from create_quote_success [OF ok] obtain m qid where m: "fst (fetch_products w) = Inr m"
    and q: "post_quote w \<lparr>hs_title = ''CGO in a Box Proposal - '' @ c,
               hs_expiration_date = expiration_date w, hs_comments = es,
               cgo_90_day_preview = pv, deal_association = d\<rparr> = Inr (Some qid)"
    and l: "fst (line_items_loop w m qid svcs) = Inr ()"
    and u: "url = quote_url_of p qid"
    by blast
  have "\<forall>svc \<in> set svcs. \<forall>pid. map_of m (sku svc) = Some pid \<and> pid \<noteq> [] \<longrightarrow>
      (\<exists>li. post_line_item w (line_item_of pid svc) = Inr (Some li)
         \<and> put_association w qid li = Inr ())"
    using line_items_loop_success [OF l] by blast
  with m q u show "\<exists>m qid. fst (fetch_products w) = Inr m
         \<and> post_quote w \<lparr>hs_title = ''CGO in a Box Proposal - '' @ c,
               hs_expiration_date = expiration_date w, hs_comments = es,
               cgo_90_day_preview = pv, deal_association = d\<rparr> = Inr (Some qid)
         \<and> url = quote_url_of p qid
         \<and> (\<forall>svc \<in> set svcs. \<forall>pid. map_of m (sku svc) = Some pid \<and> pid \<noteq> [] \<longrightarrow>
               (\<exists>li. post_line_item w (line_item_of pid svc) = Inr (Some li)
                  \<and> put_association w qid li = Inr ()))"
    by blast
next
  assume "get_products w = Inl (HTTPError msg)"
  then show "fst (create_quote_and_line_items w p d c svcs es pv) = Inl (HTTPError msg)"
    by (rule create_quote_http_error)
next
  assume "fst (fetch_products w) = Inr catalog
        \<and> post_quote w \<lparr>hs_title = ''CGO in a Box Proposal - '' @ c,
               hs_expiration_date = expiration_date w, hs_comments = es,
               cgo_90_day_preview = pv, deal_association = d\<rparr> = Inl (HTTPError msg)"
  then show "fst (create_quote_and_line_items w p d c svcs es pv) = Inl (HTTPError msg)"
    using create_quote_write_failure [of w catalog c es pv d "HTTPError msg" p svcs] by blast
next
  assume "PostLineItem li_data \<in> set (snd (create_quote_and_line_items w p d c svcs es pv))
        \<and> post_line_item w li_data = Inl (HTTPError msg)"
  then show "fst (create_quote_and_line_items w p d c svcs es pv) = Inl (HTTPError msg)"
    using create_quote_line_item_failure [of li_data w p d c svcs es pv "HTTPError msg"] by blast
next
  assume "PutAssociation q line_item_id \<in> set (snd (create_quote_and_line_items w p d c svcs es pv))
        \<and> put_association w q line_item_id = Inl (HTTPError msg)"
  then show "fst (create_quote_and_line_items w p d c svcs es pv) = Inl (HTTPError msg)"
    using create_quote_association_failure [of q line_item_id w p d c svcs es pv "HTTPError msg"]
    by blast
next
  assume a: "select_services ts = (svcs, tot)
        \<and> fst (generate_executive_summary w ts c svcs tot) = Inr es
        \<and> fst (generate_90_day_preview w ts c) = Inr pv
        \<and> fst (create_quote_and_line_items w p d c svcs es pv) = Inl (HTTPError msg)"
  then show "fst (propose w p d c ts) = Inr (Failed (QuoteCreationError msg))"
    using propose_quote_failure [of ts svcs tot w c es pv p d msg] by blast
  show "classification (QuoteCreationError msg) = UpstreamError"
    by simp
next
  assume a: "GetProducts \<in> set (snd (run_workflow cfg w deal_url))
        \<and> get_products w = Inl (HTTPError msg)"
  have "GetProducts \<notin> range GetDeal \<union> range GetCompany \<union> range GetContact
      \<union> range GetMeetingAssociations \<union> range GetMeeting \<union> range CallClaude"
    by auto
  from run_workflow_quote_call [OF a [THEN conjunct1] this] obtain p' d' cn svcs' es' pv' where
    "\<forall>msg. fst (create_quote_and_line_items w p' d' cn svcs' es' pv') = Inl (HTTPError msg) \<longrightarrow>
        fst (run_workflow cfg w deal_url) = Inr (Failed (QuoteCreationError msg))"
    by blast
  moreover have "fst (create_quote_and_line_items w p' d' cn svcs' es' pv') = Inl (HTTPError msg)"
    using a by (simp add: create_quote_products_failure)
  ultimately show "fst (run_workflow cfg w deal_url) = Inr (Failed (QuoteCreationError msg))"
    by blast
next
  assume a: "PostQuote quote_data' \<in> set (snd (run_workflow cfg w deal_url))
        \<and> post_quote w quote_data' = Inl (HTTPError msg)"
  have "PostQuote quote_data' \<notin> range GetDeal \<union> range GetCompany \<union> range GetContact
      \<union> range GetMeetingAssociations \<union> range GetMeeting \<union> range CallClaude"
    by auto
  from run_workflow_quote_call [OF a [THEN conjunct1] this] obtain p' d' cn svcs' es' pv' where
    "PostQuote quote_data' \<in> set (snd (create_quote_and_line_items w p' d' cn svcs' es' pv'))"
    "\<forall>msg. fst (create_quote_and_line_items w p' d' cn svcs' es' pv') = Inl (HTTPError msg) \<longrightarrow>
        fst (run_workflow cfg w deal_url) = Inr (Failed (QuoteCreationError msg))"
    by blast
  moreover from this(1) a
  have "fst (create_quote_and_line_items w p' d' cn svcs' es' pv') = Inl (HTTPError msg)"
    by (simp add: create_quote_post_quote_failure)
  ultimately show "fst (run_workflow cfg w deal_url) = Inr (Failed (QuoteCreationError msg))"
    by blast
next
  assume a: "PostLineItem li_data \<in> set (snd (run_workflow cfg w deal_url))
        \<and> post_line_item w li_data = Inl (HTTPError msg)"
  have "PostLineItem li_data \<notin> range GetDeal \<union> range GetCompany \<union> range GetContact
      \<union> range GetMeetingAssociations \<union> range GetMeeting \<union> range CallClaude"
    by auto
  from run_workflow_quote_call [OF a [THEN conjunct1] this] obtain p' d' cn svcs' es' pv' where
    "PostLineItem li_data \<in> set (snd (create_quote_and_line_items w p' d' cn svcs' es' pv'))"
    "\<forall>msg. fst (create_quote_and_line_items w p' d' cn svcs' es' pv') = Inl (HTTPError msg) \<longrightarrow>
        fst (run_workflow cfg w deal_url) = Inr (Failed (QuoteCreationError msg))"
    by blast
  moreover from this(1) a
  have "fst (create_quote_and_line_items w p' d' cn svcs' es' pv') = Inl (HTTPError msg)"
    by (simp add: create_quote_line_item_failure)
  ultimately show "fst (run_workflow cfg w deal_url) = Inr (Failed (QuoteCreationError msg))"
    by blast
next
  assume a: "PutAssociation q line_item_id \<in> set (snd (run_workflow cfg w deal_url))
        \<and> put_association w q line_item_id = Inl (HTTPError msg)"
  have "PutAssociation q line_item_id \<notin> range GetDeal \<union> range GetCompany \<union> range GetContact
      \<union> range GetMeetingAssociations \<union> range GetMeeting \<union> range CallClaude"
    by auto
  from run_workflow_quote_call [OF a [THEN conjunct1] this] obtain p' d' cn svcs' es' pv' where
    "PutAssociation q line_item_id
       \<in> set (snd (create_quote_and_line_items w p' d' cn svcs' es' pv'))"
    "\<forall>msg. fst (create_quote_and_line_items w p' d' cn svcs' es' pv') = Inl (HTTPError msg) \<longrightarrow>
        fst (run_workflow cfg w deal_url) = Inr (Failed (QuoteCreationError msg))"
    by blast
  moreover from this(1) a
  have "fst (create_quote_and_line_items w p' d' cn svcs' es' pv') = Inl (HTTPError msg)"
    by (simp add: create_quote_association_failure)
  ultimately show "fst (run_workflow cfg w deal_url) = Inr (Failed (QuoteCreationError msg))"
    by blast
next
  assume "map_of sku_to_id (sku s) = None \<or> map_of sku_to_id (sku s) = Some []"
  then show "line_items_loop w sku_to_id quote_id (s # rest) = line_items_loop w sku_to_id quote_id rest"
    by auto
qed

theorem quote_assembly_all_or_nothing_witness:
  "fst (run_workflow example_config products_down example_url) =
     Inr (Failed (QuoteCreationError ''503''))
   \<and> fst (run_workflow example_config quote_rejected example_url) =
     Inr (Failed (QuoteCreationError ''422''))
   \<and> fst (run_workflow example_config line_items_rejected example_url) =
     Inr (Failed (QuoteCreationError ''400''))
   \<and> fst (run_workflow example_config association_rejected example_url) =
     Inr (Failed (QuoteCreationError ''409''))
   \<and> fst (create_quote_and_line_items example_world ''21656838'' ''12345'' ''Acme''
          [SERVICES ! 1, SERVICES ! 2] ''<h3>Plan</h3>'' ''<h3>Plan</h3>'') =
     Inr (quote_url_of ''21656838'' ''777'')
   \<and> fst (create_quote_and_line_items products_down ''21656838'' ''12345'' ''Acme''
          [SERVICES ! 1, SERVICES ! 2] ''<h3>Plan</h3>'' ''<h3>Plan</h3>'') = Inl (HTTPError ''503'')
   \<and> fst (propose products_down ''21656838'' ''12345'' ''Acme'' [notes_m1, notes_m2]) =
     Inr (Failed (QuoteCreationError ''503''))
   \<and> line_items_loop example_world [] ''777'' [SERVICES ! 0] = returns ()"
proof -
  note t = quote_assembly_all_or_nothing [where w = products_down and p = "''21656838''"
      and d = "''12345''" and c = "''Acme''" and svcs = "[SERVICES ! 1, SERVICES ! 2]"
      and es = "''<h3>Plan</h3>''" and pv = "''<h3>Plan</h3>''" and msg = "''503''"
      and ts = "[notes_m1, notes_m2]" and tot = 5000 and cfg = example_config
      and deal_url = example_url]
  note e = quote_assembly_all_or_nothing [where w = example_world and p = "''21656838''"
      and d = "''12345''" and c = "''Acme''" and svcs = "[SERVICES ! 1, SERVICES ! 2]"
      and es = "''<h3>Plan</h3>''" and pv = "''<h3>Plan</h3>''"
      and url = "quote_url_of ''21656838'' ''777''"
      and sku_to_id = "[]" and s = "SERVICES ! 0" and rest = "[]" and quote_id = "''777''"]
  note qr = quote_assembly_all_or_nothing [where w = quote_rejected and msg = "''422''"
      and cfg = example_config and deal_url = example_url
      and quote_data' = "\<lparr>hs_title = ''CGO in a Box Proposal - Acme'',
        hs_expiration_date = ''2026-12-04'', hs_comments = ''<h3>Plan</h3>'',
        cgo_90_day_preview = ''<h3>Plan</h3>'', deal_association = ''12345''\<rparr>"]
  note lr = quote_assembly_all_or_nothing [where w = line_items_rejected and msg = "''400''"
      and cfg = example_config and deal_url = example_url
      and li_data = "line_item_of ''902'' (SERVICES ! 1)"]
  note ar = quote_assembly_all_or_nothing [where w = association_rejected and msg = "''409''"
      and cfg = example_config and deal_url = example_url
      and q = "''777''" and line_item_id = "''li902''"]
  note t6 = t [THEN conjunct2, THEN conjunct2, THEN conjunct2, THEN conjunct2, THEN conjunct2,
      THEN conjunct2]
  note qr6 = qr [THEN conjunct2, THEN conjunct2, THEN conjunct2, THEN conjunct2, THEN conjunct2,
      THEN conjunct2]
  note lr6 = lr [THEN conjunct2, THEN conjunct2, THEN conjunct2, THEN conjunct2, THEN conjunct2,
      THEN conjunct2]
  note ar6 = ar [THEN conjunct2, THEN conjunct2, THEN conjunct2, THEN conjunct2, THEN conjunct2,
      THEN conjunct2]
  note e6 = e [THEN conjunct2, THEN conjunct2, THEN conjunct2, THEN conjunct2, THEN conjunct2,
      THEN conjunct2]
  have r1: "fst (run_workflow example_config products_down example_url) =
     Inr (Failed (QuoteCreationError ''503''))"
    by (rule t6 [THEN conjunct1, THEN mp])
      (intro conjI example_run_quote_calls(1) products_down_fields(7))
  have r2: "fst (run_workflow example_config quote_rejected example_url) =
     Inr (Failed (QuoteCreationError ''422''))"
    by (rule qr6 [THEN conjunct2, THEN conjunct1, THEN mp])
      (intro conjI example_run_quote_calls(2) quote_rejected_fields(9))
  have r3: "fst (run_workflow example_config line_items_rejected example_url) =
     Inr (Failed (QuoteCreationError ''400''))"
    by (rule lr6 [THEN conjunct2, THEN conjunct2, THEN conjunct1, THEN mp])
      (intro conjI example_run_quote_calls(3) line_items_rejected_fields(10))
  have r4: "fst (run_workflow example_config association_rejected example_url) =
     Inr (Failed (QuoteCreationError ''409''))"
    by (rule ar6 [THEN conjunct2, THEN conjunct2, THEN conjunct2, THEN conjunct1, THEN mp])
      (intro conjI example_run_quote_calls(4) association_rejected_fields(11))
  have a: "fst (create_quote_and_line_items example_world ''21656838'' ''12345'' ''Acme''
          [SERVICES ! 1, SERVICES ! 2] ''<h3>Plan</h3>'' ''<h3>Plan</h3>'') =
     Inr (quote_url_of ''21656838'' ''777'')"
    by (rule example_world_quote)
  from e [THEN conjunct1, THEN mp, OF a]
  have "\<exists>m qid. fst (fetch_products example_world) = Inr m
      \<and> post_quote example_world \<lparr>hs_title = ''CGO in a Box Proposal - '' @ ''Acme'',
               hs_expiration_date = expiration_date example_world, hs_comments = ''<h3>Plan</h3>'',
               cgo_90_day_preview = ''<h3>Plan</h3>'', deal_association = ''12345''\<rparr> = Inr (Some qid)
      \<and> quote_url_of ''21656838'' ''777'' = quote_url_of ''21656838'' qid"
    by blast
  have b: "fst (create_quote_and_line_items products_down ''21656838'' ''12345'' ''Acme''
          [SERVICES ! 1, SERVICES ! 2] ''<h3>Plan</h3>'' ''<h3>Plan</h3>'') = Inl (HTTPError ''503'')"
    by (rule t [THEN conjunct2, THEN conjunct1, THEN mp]) (rule products_down_fields)
  have h: "select_services [notes_m1, notes_m2] = ([SERVICES ! 1, SERVICES ! 2], 5000)
        \<and> fst (generate_executive_summary products_down [notes_m1, notes_m2] ''Acme''
               [SERVICES ! 1, SERVICES ! 2] 5000) = Inr ''<h3>Plan</h3>''
        \<and> fst (generate_90_day_preview products_down [notes_m1, notes_m2] ''Acme'') =
            Inr ''<h3>Plan</h3>''
        \<and> fst (create_quote_and_line_items products_down ''21656838'' ''12345'' ''Acme''
              [SERVICES ! 1, SERVICES ! 2] ''<h3>Plan</h3>'' ''<h3>Plan</h3>'') =
            Inl (HTTPError ''503'')"
    by (intro conjI example_selection example_narrative [OF products_down_fields(6)] b)
  have c: "fst (propose products_down ''21656838'' ''12345'' ''Acme'' [notes_m1, notes_m2]) =
     Inr (Failed (QuoteCreationError ''503''))"
    by (rule t [THEN conjunct2, THEN conjunct2, THEN conjunct2, THEN conjunct2, THEN conjunct2,
          THEN conjunct1, THEN mp, OF h, THEN conjunct1])
  have d: "line_items_loop example_world [] ''777'' [SERVICES ! 0] = returns ()"
    using e6 [THEN conjunct2, THEN conjunct2, THEN conjunct2, THEN conjunct2] by simp
  from r1 r2 r3 r4 a b c d show ?thesis
    by (intro conjI)
qed

section \<open>The CRM and sales pipeline scenario (claim C7)\<close>

text \<open>
  Claim C7, as stated, fails: the selected services are listed in catalog order, in which
  Sales Operations Consulting precedes CRM Management. The run on a deal whose two
  transcripts each name two CRM indicators and two sales pipeline indicators succeeds
  with total 5000 and the service names in that order, not the claimed one.
\<close>

theorem service_names_order_counterexample:
  "fst (fetch_fathom_transcripts example_world ''12345'') = Inr [notes_m1, notes_m2]
   \<and> sku_hits notes_m1 ''CGO-CRM'' = 2 \<and> sku_hits notes_m1 ''CGO-SALESOPS'' = 2
   \<and> sku_hits notes_m2 ''CGO-CRM'' = 2 \<and> sku_hits notes_m2 ''CGO-SALESOPS'' = 2
   \<and> fst (run_workflow example_config example_world example_url) =
       Inr (Succeeded ''https://app.hubspot.com/contacts/21656838/record/0-115/777'' ''Acme'' 5000
              [''Sales Operations Consulting'', ''CRM Management''])"
  by (simp add: example_transcripts_of [OF refl refl] notes_hits example_world_run
      quote_url_of_def)

text \<open>
  Claim C7, amended. For a non-empty list of transcripts each of which has at least two
  CRM indicator hits, at least two sales pipeline indicator hits and no hit for any other
  sku, \<^verbatim>\<open>recommend_services\<close> selects Sales Operations Consulting and CRM Management, in
  catalog order, with total 5000. A successful run on a deal with such transcripts
  reports total 5000, the service names Sales Operations Consulting, CRM Management in
  that order, and a quote URL made of the configured tenant id and a quote id.
\<close>

theorem crm_and_sales_pipeline_scenario:
  "(ts \<noteq> []
      \<and> (\<forall>t \<in> set ts. 2 \<le> sku_hits t ''CGO-CRM'' \<and> 2 \<le> sku_hits t ''CGO-SALESOPS''
            \<and> sku_hits t ''CGO-MKTOPS'' = 0 \<and> sku_hits t ''CGO-DATA'' = 0
            \<and> sku_hits t ''CGO-EMAIL'' = 0 \<and> sku_hits t ''CGO-LINKEDIN'' = 0) \<longrightarrow>
    recommend_services ts = ([SERVICES ! 1, SERVICES ! 2], 5000)
      \<and> map name [SERVICES ! 1, SERVICES ! 2] =
          [''Sales Operations Consulting'', ''CRM Management''])
   \<and> (fst (run_workflow cfg w url) = Inr (Succeeded u c tot ns)
      \<and> parse_deal_url url = Some (p, d)
      \<and> fst (fetch_fathom_transcripts w d) = Inr ts
      \<and> (\<forall>t \<in> set ts. 2 \<le> sku_hits t ''CGO-CRM'' \<and> 2 \<le> sku_hits t ''CGO-SALESOPS''
            \<and> sku_hits t ''CGO-MKTOPS'' = 0 \<and> sku_hits t ''CGO-DATA'' = 0
            \<and> sku_hits t ''CGO-EMAIL'' = 0 \<and> sku_hits t ''CGO-LINKEDIN'' = 0) \<longrightarrow>
    success (Succeeded u c tot ns) \<and> tot = 5000
      \<and> ns = [''Sales Operations Consulting'', ''CRM Management'']
      \<and> HUBSPOT_PORTAL_ID cfg = Some p
      \<and> (\<exists>qid. u = ''https://app.hubspot.com/contacts/'' @ p @ ''/record/0-115/'' @ qid))"
proof (intro conjI impI)
  assume a: "ts \<noteq> []
      \<and> (\<forall>t \<in> set ts. 2 \<le> sku_hits t ''CGO-CRM'' \<and> 2 \<le> sku_hits t ''CGO-SALESOPS''
            \<and> sku_hits t ''CGO-MKTOPS'' = 0 \<and> sku_hits t ''CGO-DATA'' = 0
            \<and> sku_hits t ''CGO-EMAIL'' = 0 \<and> sku_hits t ''CGO-LINKEDIN'' = 0)"
  show "recommend_services ts = ([SERVICES ! 1, SERVICES ! 2], 5000)"
    by (rule crm_salesops_only [OF a [THEN conjunct1] a [THEN conjunct2]])
  show "map name [SERVICES ! 1, SERVICES ! 2] =
      [''Sales Operations Consulting'', ''CRM Management'']"
    by (rule example_names)
next
  assume a: "fst (run_workflow cfg w url) = Inr (Succeeded u c tot ns)
      \<and> parse_deal_url url = Some (p, d)
      \<and> fst (fetch_fathom_transcripts w d) = Inr ts
      \<and> (\<forall>t \<in> set ts. 2 \<le> sku_hits t ''CGO-CRM'' \<and> 2 \<le> sku_hits t ''CGO-SALESOPS''
            \<and> sku_hits t ''CGO-MKTOPS'' = 0 \<and> sku_hits t ''CGO-DATA'' = 0
            \<and> sku_hits t ''CGO-EMAIL'' = 0 \<and> sku_hits t ''CGO-LINKEDIN'' = 0)"
  note r = run_success_proposal [OF a [THEN conjunct1] a [THEN conjunct2, THEN conjunct1]
      a [THEN conjunct2, THEN conjunct2, THEN conjunct1]]
  from r have ne: "ts \<noteq> []"
    by (elim conjE)
  have rec: "recommend_services ts = ([SERVICES ! 1, SERVICES ! 2], 5000)"
    by (rule crm_salesops_only [OF ne a [THEN conjunct2, THEN conjunct2, THEN conjunct2]])
  have "[SERVICES ! 1, SERVICES ! 2] \<noteq> []"
    by simp
  with rec have sel: "select_services ts = ([SERVICES ! 1, SERVICES ! 2], 5000)"
    by (simp add: select_services_def)
  show "success (Succeeded u c tot ns)"
    by (simp add: success_def)
  from r sel show "tot = 5000"
    by simp
  from r sel show "ns = [''Sales Operations Consulting'', ''CRM Management'']"
    by (simp add: SERVICES_def)
  from r show "HUBSPOT_PORTAL_ID cfg = Some p"
    by (elim conjE)
  from r obtain es pv where
    "fst (create_quote_and_line_items w p d c (fst (select_services ts)) es pv) = Inr u"
    by (elim conjE exE)
  from create_quote_success [OF this]
  show "\<exists>qid. u = ''https://app.hubspot.com/contacts/'' @ p @ ''/record/0-115/'' @ qid"
    unfolding quote_url_of_def by (elim exE conjE) (rule exI)
qed

theorem crm_and_sales_pipeline_scenario_witness:
  "recommend_services [notes_m1, notes_m2] = ([SERVICES ! 1, SERVICES ! 2], 5000)
   \<and> fst (run_workflow example_config example_world example_url) =
       Inr (Succeeded (quote_url_of ''21656838'' ''777'') ''Acme'' 5000
              [''Sales Operations Consulting'', ''CRM Management''])
   \<and> HUBSPOT_PORTAL_ID example_config = Some ''21656838''"
proof -
  note t = crm_and_sales_pipeline_scenario [where ts = "[notes_m1, notes_m2]"
      and cfg = example_config and w = example_world and url = example_url
      and u = "quote_url_of ''21656838'' ''777''" and c = "''Acme''" and tot = 5000
      and ns = "[''Sales Operations Consulting'', ''CRM Management'']"
      and p = "''21656838''" and d = "''12345''"]
  have h: "\<forall>t \<in> set [notes_m1, notes_m2].
      2 \<le> sku_hits t ''CGO-CRM'' \<and> 2 \<le> sku_hits t ''CGO-SALESOPS''
      \<and> sku_hits t ''CGO-MKTOPS'' = 0 \<and> sku_hits t ''CGO-DATA'' = 0
      \<and> sku_hits t ''CGO-EMAIL'' = 0 \<and> sku_hits t ''CGO-LINKEDIN'' = 0"
    by (simp add: notes_hits)
  have ne: "[notes_m1, notes_m2] \<noteq> []"
    by simp
  have f: "fst (fetch_fathom_transcripts example_world ''12345'') = Inr [notes_m1, notes_m2]"
    by (simp add: example_transcripts_of [OF refl refl])
  from t [THEN conjunct1, THEN mp, OF conjI [OF ne h]]
  have a: "recommend_services [notes_m1, notes_m2] = ([SERVICES ! 1, SERVICES ! 2], 5000)"
    by (rule conjunct1)
  from t [THEN conjunct2, THEN mp, OF conjI [OF example_world_run conjI [OF example_parse
          conjI [OF f h]]]]
  have b: "HUBSPOT_PORTAL_ID example_config = Some ''21656838''"
    by (elim conjE)
  from a example_world_run b show ?thesis
    by (intro conjI)
qed

section \<open>The default service (claim C9)\<close>

text \<open>
  Claim C9, as stated, fails: the default service is not a low-tier one. When no sku
  qualifies the run falls back to the first catalog entry, Marketing Operations
  Consulting at 3000, and no individual service of the catalog costs more.
\<close>

theorem default_service_price_counterexample:
  "select_services [quiet_notes, quiet_notes] = ([SERVICES ! 0], 3000)
   \<and> name (SERVICES ! 0) = ''Marketing Operations Consulting''
   \<and> map price SERVICES = [3000, 3000, 2000, 1500, 1500, 1500, 12000]
   \<and> map sku SERVICES = [''CGO-MKTOPS'', ''CGO-SALESOPS'', ''CGO-CRM'', ''CGO-DATA'',
        ''CGO-EMAIL'', ''CGO-LINKEDIN'', ''CGO-BUNDLE'']"
proof -
  have "select_services [quiet_notes, quiet_notes] = ([SERVICES ! 0], 3000)"
    by (rule select_services_default [OF quiet_all_skus])
  moreover have "name (SERVICES ! 0) = ''Marketing Operations Consulting''"
    by (simp add: SERVICES_def)
  moreover have "map price SERVICES = [3000, 3000, 2000, 1500, 1500, 1500, 12000]"
    by (simp add: SERVICES_def)
  moreover have "map sku SERVICES = [''CGO-MKTOPS'', ''CGO-SALESOPS'', ''CGO-CRM'', ''CGO-DATA'',
        ''CGO-EMAIL'', ''CGO-LINKEDIN'', ''CGO-BUNDLE'']"
    by (simp add: SERVICES_def)
  ultimately show ?thesis
    by (intro conjI)
qed

text \<open>
  Claim C9, amended. The selection of \<^verbatim>\<open>recommend_services\<close> is empty exactly when no
  sku qualifies; then the run falls back to the single default service, the first
  catalog entry (Marketing Operations Consulting), with that entry's price, 3000, as the
  total. No other individual service costs more: the default is the highest-priced entry
  but the bundle. A successful run on such transcripts reports that total and that one
  service name, and its quote was assembled for exactly that one entry.
\<close>

theorem default_service_fallback:
  "(fst (recommend_services ts) = [] \<longleftrightarrow> all_skus ts = {})
   \<and> (fst (recommend_services ts) = [] \<longrightarrow> select_services ts = ([SERVICES ! 0], 3000))
   \<and> sku (SERVICES ! 0) = ''CGO-MKTOPS''
   \<and> name (SERVICES ! 0) = ''Marketing Operations Consulting''
   \<and> price (SERVICES ! 0) = 3000
   \<and> (\<forall>s \<in> set SERVICES. sku s \<noteq> ''CGO-BUNDLE'' \<longrightarrow> price s \<le> price (SERVICES ! 0))
   \<and> (fst (run_workflow cfg w url) = Inr (Succeeded u c tot ns)
      \<and> parse_deal_url url = Some (p, d)
      \<and> fst (fetch_fathom_transcripts w d) = Inr ts
      \<and> fst (recommend_services ts) = [] \<longrightarrow>
    tot = 3000 \<and> ns = [''Marketing Operations Consulting'']
      \<and> (\<exists>es pv. fst (create_quote_and_line_items w p d c [SERVICES ! 0] es pv) = Inr u))"
proof (intro conjI impI)
  show "fst (recommend_services ts) = [] \<longleftrightarrow> all_skus ts = {}"
    by (rule recommend_empty_iff)
  show "select_services ts = ([SERVICES ! 0], 3000)" if "fst (recommend_services ts) = []"
    using that by (simp add: recommend_empty_iff select_services_default)
  show "sku (SERVICES ! 0) = ''CGO-MKTOPS''"
    by (simp add: SERVICES_def)
  show "name (SERVICES ! 0) = ''Marketing Operations Consulting''"
    by (simp add: SERVICES_def)
  show "price (SERVICES ! 0) = 3000"
    by (simp add: SERVICES_def)
  show "\<forall>s \<in> set SERVICES. sku s \<noteq> ''CGO-BUNDLE'' \<longrightarrow> price s \<le> price (SERVICES ! 0)"
    by (simp add: SERVICES_def)
next
  assume a: "fst (run_workflow cfg w url) = Inr (Succeeded u c tot ns)
      \<and> parse_deal_url url = Some (p, d)
      \<and> fst (fetch_fathom_transcripts w d) = Inr ts
      \<and> fst (recommend_services ts) = []"
  note r = run_success_proposal [OF a [THEN conjunct1] a [THEN conjunct2, THEN conjunct1]
      a [THEN conjunct2, THEN conjunct2, THEN conjunct1]]
  from a have "all_skus ts = {}"
    by (simp add: recommend_empty_iff)
  then have sel: "select_services ts = ([SERVICES ! 0], 3000)"
    by (rule select_services_default)
  from r sel show "tot = 3000"
    by simp
  from r sel show "ns = [''Marketing Operations Consulting'']"
    by (simp add: SERVICES_def)
  from r sel show "\<exists>es pv. fst (create_quote_and_line_items w p d c [SERVICES ! 0] es pv) = Inr u"
    by simp
qed

theorem default_service_fallback_witness:
  "select_services [quiet_notes, quiet_notes] = ([SERVICES ! 0], 3000)
   \<and> fst (run_workflow example_config quiet_world example_url) =
       Inr (Succeeded (quote_url_of ''21656838'' ''777'') ''Acme'' 3000
              [''Marketing Operations Consulting''])
   \<and> price (SERVICES ! 3) \<le> price (SERVICES ! 0)"
proof -
  note t = default_service_fallback [where ts = "[quiet_notes, quiet_notes]"
      and cfg = example_config and w = quiet_world and url = example_url
      and u = "quote_url_of ''21656838'' ''777''" and c = "''Acme''" and tot = 3000
      and ns = "[''Marketing Operations Consulting'']"
      and p = "''21656838''" and d = "''12345''"]
  have e: "fst (recommend_services [quiet_notes, quiet_notes]) = []"
    using t [THEN conjunct1] quiet_all_skus by (rule iffD2)
  have a: "select_services [quiet_notes, quiet_notes] = ([SERVICES ! 0], 3000)"
    using t [THEN conjunct2, THEN conjunct1] e by (rule mp)
  have f: "fst (fetch_fathom_transcripts quiet_world ''12345'') = Inr [quiet_notes, quiet_notes]"
    by (simp add: quiet_transcripts)
  note t5 = t [THEN conjunct2, THEN conjunct2, THEN conjunct2, THEN conjunct2, THEN conjunct2]
  have m: "SERVICES ! 3 \<in> set SERVICES" "sku (SERVICES ! 3) \<noteq> ''CGO-BUNDLE''"
    by (simp_all add: SERVICES_def)
  from t5 [THEN conjunct1, THEN bspec, OF m(1), THEN mp, OF m(2)]
  have b: "price (SERVICES ! 3) \<le> price (SERVICES ! 0)" .
  note t5 [THEN conjunct2, THEN mp,
      OF conjI [OF quiet_world_run conjI [OF example_parse conjI [OF f e]]]]
  from a quiet_world_run b show ?thesis
    by (intro conjI)
qed

end
